theory Spec2Isabelle
  imports Complex_Main "HOL-Library.Char_ord" "HOL-Library.List_Lexorder" "HOL-Library.Multiset"
begin

section \<open>Cards and the hand evaluator (models/Game.js)\<close>

text \<open>
  A card is the sub-document \<^verbatim>\<open>{ suit, rank }\<close> of the game schema; both fields are
  JavaScript strings. Numbers that the code only ever fills with whole chip counts,
  indices and hand values are integers here (\<^typ>\<open>int\<close>), list positions are
  \<^typ>\<open>nat\<close>.
\<close>

record card =
  suit :: string
  rank :: string

datatype handRank = HighCard | Pair | Color | Sequence | PureSequence | Trail

text \<open>
  The position of a category in the schema's enum
  \<^verbatim>\<open>['high-card', 'pair', 'color', 'sequence', 'pure-sequence', 'trail']\<close>.
\<close>

fun categoryIndex :: "handRank \<Rightarrow> nat" where
  "categoryIndex HighCard = 0"
| "categoryIndex Pair = 1"
| "categoryIndex Color = 2"
| "categoryIndex Sequence = 3"
| "categoryIndex PureSequence = 4"
| "categoryIndex Trail = 5"

definition suits :: "string list" where
  "suits = [''hearts'', ''diamonds'', ''clubs'', ''spades'']"

definition ranks :: "string list" where
  "ranks = [''2'', ''3'', ''4'', ''5'', ''6''] @ [''7'', ''8'', ''9'', ''10''] @
           [''J'', ''Q'', ''K'', ''A'']"

text \<open>\<^verbatim>\<open>createDeck\<close>: for every suit, for every rank, push the card.\<close>

definition createDeck :: "card list" where
  "createDeck = concat (map (\<lambda>s. map (\<lambda>r. \<lparr>suit = s, rank = r\<rparr>) ranks) suits)"

text \<open>\<^verbatim>\<open>getRankValue\<close>: a table lookup, \<^verbatim>\<open>values[rank] || 0\<close>.\<close>

definition getRankValue :: "string \<Rightarrow> int" where
  "getRankValue r =
     (case map_of [(''2'', 2), (''3'', 3), (''4'', 4), (''5'', 5), (''6'', 6), (''7'', 7),
                   (''8'', 8), (''9'', 9), (''10'', 10), (''J'', 11), (''Q'', 12),
                   (''K'', 13), (''A'', 14)] r of
        Some v \<Rightarrow> v
      | None \<Rightarrow> 0)"

text \<open>
  \<^verbatim>\<open>evaluateHand\<close>. \<^verbatim>\<open>ranks.sort()\<close> is the default sort of JavaScript, the
  lexicographic order of the strings by code unit, which on these ASCII strings is the
  order of \<^typ>\<open>string\<close>; \<^verbatim>\<open>sort((a, b) => a - b)\<close> is the ascending sort of
  the numbers.
\<close>

definition evaluateHand :: "card list \<Rightarrow> handRank" where
  "evaluateHand cards =
     (if length cards \<noteq> 3 then HighCard
      else
        let rs = sort (map rank cards);
            ss = map suit cards
        in
          if rs ! 0 = rs ! 1 \<and> rs ! 1 = rs ! 2 then Trail
          else
            let rankValues = sort (map getRankValue rs);
                isSequence = (rankValues ! 1 = rankValues ! 0 + 1 \<and>
                              rankValues ! 2 = rankValues ! 1 + 1)
            in
              if isSequence \<and> ss ! 0 = ss ! 1 \<and> ss ! 1 = ss ! 2 then PureSequence
              else if isSequence then Sequence
              else if ss ! 0 = ss ! 1 \<and> ss ! 1 = ss ! 2 then Color
              else if rs ! 0 = rs ! 1 \<or> rs ! 1 = rs ! 2 \<or> rs ! 0 = rs ! 2 then Pair
              else HighCard)"

text \<open>
  Reading an array past its end gives \<^verbatim>\<open>undefined\<close>, and \<^verbatim>\<open>find\<close> gives
  \<^verbatim>\<open>undefined\<close> when nothing matches; arithmetic on \<^verbatim>\<open>undefined\<close> is
  \<^verbatim>\<open>NaN\<close>. Both are \<^term>\<open>None\<close> here.
\<close>

definition elemAt :: "'a list \<Rightarrow> nat \<Rightarrow> 'a option" where
  "elemAt xs i = (if i < length xs then Some (xs ! i) else None)"

text \<open>\<^verbatim>\<open>indexOf\<close>: the first index of a value, or \<open>-1\<close>.\<close>

fun indexOf :: "'a list \<Rightarrow> 'a \<Rightarrow> int" where
  "indexOf [] v = - 1"
| "indexOf (x # xs) v =
     (if x = v then 0 else (let r = indexOf xs v in if r < 0 then - 1 else r + 1))"

text \<open>
  \<^verbatim>\<open>getHandValue\<close>. \<^verbatim>\<open>sort((a, b) => b - a)\<close> is the descending sort. The
  \<^verbatim>\<open>default\<close> branch of the switch is the one \<^verbatim>\<open>'high-card'\<close> takes.
\<close>

definition getHandValue :: "card list \<Rightarrow> handRank \<Rightarrow> int option" where
  "getHandValue cards hr =
     (let rankValues = rev (sort (map (\<lambda>c. getRankValue (rank c)) cards)) in
      case hr of
        Trail \<Rightarrow> map_option (\<lambda>v. 6000 + v) (elemAt rankValues 0)
      | PureSequence \<Rightarrow> map_option (\<lambda>v. 5000 + v) (elemAt rankValues 2)
      | Sequence \<Rightarrow> map_option (\<lambda>v. 4000 + v) (elemAt rankValues 2)
      | Color \<Rightarrow>
          (case (elemAt rankValues 0, elemAt rankValues 1, elemAt rankValues 2) of
             (Some a, Some b, Some c) \<Rightarrow> Some (3000 + a * 100 + b * 10 + c)
           | _ \<Rightarrow> None)
      | Pair \<Rightarrow>
          (case map_option fst
                  (find (\<lambda>(val, idx). indexOf rankValues val \<noteq> int idx)
                     (zip rankValues [0..<length rankValues])) of
             None \<Rightarrow> None
           | Some pairValue \<Rightarrow>
               (case find (\<lambda>val. val \<noteq> pairValue) rankValues of
                  None \<Rightarrow> None
                | Some kicker \<Rightarrow> Some (2000 + pairValue * 100 + kicker)))
      | HighCard \<Rightarrow>
          (case (elemAt rankValues 0, elemAt rankValues 1, elemAt rankValues 2) of
             (Some a, Some b, Some c) \<Rightarrow> Some (a * 100 + b * 10 + c)
           | _ \<Rightarrow> None))"

section \<open>The game document (models/Game.js)\<close>

text \<open>
  Object ids are natural numbers. A game's \<^verbatim>\<open>_id\<close> and its \<^verbatim>\<open>gameId\<close> name
  the same document, so one field stands for both. Dates (\<^verbatim>\<open>startedAt\<close>,
  \<^verbatim>\<open>completedAt\<close>, the history's \<^verbatim>\<open>timestamp\<close>) are left out: nothing
  reads them. Fields that no function below reads or writes (\<^verbatim>\<open>gameType\<close>,
  \<^verbatim>\<open>dealerIndex\<close>, \<^verbatim>\<open>round\<close>, \<^verbatim>\<open>isAllIn\<close>, the password, the timers) are
  left out as well.

  The store is the document database behind the models: \<^verbatim>\<open>findById\<close> reads a
  document, \<^verbatim>\<open>save()\<close> and \<^verbatim>\<open>findByIdAndUpdate\<close> write one. A write stores what
  it is given: the declarative validators of the schemas (\<^verbatim>\<open>enum\<close>, \<^verbatim>\<open>min\<close>,
  \<^verbatim>\<open>required\<close>) are not part of the model, only the checks the functions themselves
  make. (Two writes of the handlers do not meet the declared validators: the last
  actions \<^verbatim>\<open>'show'\<close> and \<^verbatim>\<open>'blind'\<close> are not in the enum of \<^verbatim>\<open>lastAction\<close>,
  and the commission record has the required recipient \<^verbatim>\<open>null\<close>. The model takes
  them to be stored, as the handlers are written to expect.)
\<close>

type_synonym uid = nat

datatype status = Waiting | Active | Completed | Cancelled

datatype action = Fold | Call | Raise | Check | Show | Blind | OtherAction

text \<open>
  The \<^verbatim>\<open>details\<close> of a history entry are template strings; each constructor is one
  template with its holes (the user name, the amount).
\<close>

datatype details =
    Folded string
  | Called string int
  | RaisedBy string int
  | Checked string
  | ShowedCards string
  | PlayedBlind string int
  | LeftTheGame string

record historyEntry =
  action :: action
  player :: uid
  amount :: int
  details :: details

text \<open>
  The type parameter is the type of a card as the holder of the document sees it:
  \<^typ>\<open>card\<close> on the server, a card or a placeholder in the object sent to a client.
\<close>

record 'c player =
  user :: uid
  position :: nat
  cards :: "'c list"
  handRank :: handRank
  handValue :: int
  isPlaying :: bool
  isFolded :: bool
  isBlind :: bool
  currentBet :: int
  totalBet :: int
  lastAction :: "action option"

text \<open>\<^verbatim>\<open>game.currentBet\<close> is \<open>gameCurrentBet\<close>: the player has a field of the same name.\<close>

record 'c game =
  gameId :: nat
  status :: status
  maxPlayers :: nat
  minBet :: int
  maxBet :: int
  gameCurrentBet :: int
  pot :: int
  players :: "'c player list"
  currentPlayerIndex :: nat
  deck :: "card list"
  winner :: "uid option"
  winningHand :: "handRank option"
  gameHistory :: "historyEntry list"

text \<open>The filter \<^verbatim>\<open>p => !p.isFolded && p.isPlaying\<close>, written out four times in the code.\<close>

definition stillIn :: "'c player \<Rightarrow> bool" where
  "stillIn p = (\<not> isFolded p \<and> isPlaying p)"

definition addToHistory :: "'c game \<Rightarrow> action \<Rightarrow> uid \<Rightarrow> int \<Rightarrow> details \<Rightarrow> 'c game" where
  "addToHistory g a playerId amt d =
     g\<lparr>gameHistory := gameHistory g @ [\<lparr>action = a, player = playerId, amount = amt, details = d\<rparr>]\<rparr>"

subsection \<open>Shuffling and dealing\<close>

text \<open>
  \<^verbatim>\<open>shuffleDeck\<close>: the loop \<^verbatim>\<open>for (i = length - 1; i > 0; i--)\<close> swaps position
  \<open>i\<close> with position \<open>j = Math.floor(Math.random() * (i + 1))\<close>. The random source is a
  parameter: \<open>rnd i\<close> is the \<open>j\<close> drawn at step \<open>i\<close>.
\<close>

fun shuffleLoop :: "(nat \<Rightarrow> nat) \<Rightarrow> nat \<Rightarrow> 'a list \<Rightarrow> 'a list" where
  "shuffleLoop rnd 0 shuffled = shuffled"
| "shuffleLoop rnd (Suc k) shuffled =
     (let i = Suc k; j = rnd i
      in shuffleLoop rnd k (shuffled[i := shuffled ! j, j := shuffled ! i]))"

definition shuffleDeck :: "(nat \<Rightarrow> nat) \<Rightarrow> 'a list \<Rightarrow> 'a list" where
  "shuffleDeck rnd d = shuffleLoop rnd (length d - 1) d"

text \<open>
  \<^verbatim>\<open>deck.pop()\<close> removes and returns the last element, and returns
  \<^verbatim>\<open>undefined\<close> (\<^term>\<open>None\<close>) on an empty array, which it leaves empty.
\<close>

definition pop :: "'a list \<Rightarrow> 'a option \<times> 'a list" where
  "pop xs = (if xs = [] then (None, []) else (Some (last xs), butlast xs))"

text \<open>The inner loop of \<^verbatim>\<open>dealCards\<close>: \<open>n\<close> times \<^verbatim>\<open>player.cards.push(this.deck.pop())\<close>.\<close>

fun popCards :: "nat \<Rightarrow> 'a list \<Rightarrow> 'a option list \<times> 'a list" where
  "popCards 0 d = ([], d)"
| "popCards (Suc n) d =
     (let (c, d') = pop d; (cs, d'') = popCards n d' in (c # cs, d''))"

text \<open>
  What a JavaScript function throws. \<open>TypeError\<close> is a property read on
  \<^verbatim>\<open>undefined\<close> or \<^verbatim>\<open>null\<close>; \<open>NotANumber\<close> stands for a hand value that is
  \<^verbatim>\<open>NaN\<close>, which the Number field of the document cannot hold; the others are the
  \<^verbatim>\<open>throw new Error(...)\<close> of the models.
\<close>

datatype exn =
    TypeError
  | NotANumber
  | InsufficientChips
  | RecipientNotFound
  | InsufficientBalance

text \<open>
  The \<^verbatim>\<open>forEach\<close> of \<^verbatim>\<open>dealCards\<close> over the players, on the deck that is left.
  \<^verbatim>\<open>evaluateHand\<close> reads \<^verbatim>\<open>c.rank\<close> of each of the three entries, so an entry
  that is \<^verbatim>\<open>undefined\<close> throws there.
\<close>

fun dealLoop :: "card list \<Rightarrow> card player list \<Rightarrow> exn + (card player list \<times> card list)" where
  "dealLoop d [] = Inr ([], d)"
| "dealLoop d (p # ps) =
     (let (popped, d') = popCards 3 d in
      if None \<in> set popped then Inl TypeError
      else
        let hand = map the popped;
            hr = evaluateHand hand
        in case getHandValue hand hr of
             None \<Rightarrow> Inl NotANumber
           | Some v \<Rightarrow>
               (case dealLoop d' ps of
                  Inl e \<Rightarrow> Inl e
                | Inr (ps', d'') \<Rightarrow>
                    Inr (p\<lparr>cards := hand, handRank := hr, handValue := v\<rparr> # ps', d'')))"

definition dealCards :: "(nat \<Rightarrow> nat) \<Rightarrow> card game \<Rightarrow> exn + card game" where
  "dealCards rnd g =
     (case dealLoop (shuffleDeck rnd createDeck) (players g) of
        Inl e \<Rightarrow> Inl e
      | Inr (ps, d) \<Rightarrow> Inr (g\<lparr>players := ps, deck := d\<rparr>))"

subsection \<open>Leaving, and picking the winner\<close>

definition removePlayer :: "'c game \<Rightarrow> uid \<Rightarrow> 'c game" where
  "removePlayer g userId =
     (let kept = filter (\<lambda>p. user p \<noteq> userId) (players g);
          g' = g\<lparr>players := map (\<lambda>(p, index). p\<lparr>position := index\<rparr>) (zip kept [0..<length kept])\<rparr>
      in if length (players g') < 2 \<and> status g' = Active then g'\<lparr>status := Cancelled\<rparr> else g')"

text \<open>
  \<^verbatim>\<open>determineWinner\<close>. On an empty array \<^verbatim>\<open>activePlayers[0]\<close> is
  \<^verbatim>\<open>undefined\<close>, the loop does nothing and \<^verbatim>\<open>undefined\<close> is returned.
\<close>

definition determineWinner :: "'c game \<Rightarrow> 'c player option" where
  "determineWinner g =
     (let activePlayers = filter stillIn (players g) in
      if length activePlayers = 1 then elemAt activePlayers 0
      else
        (case elemAt activePlayers 0 of
           None \<Rightarrow> None
         | Some first \<Rightarrow>
             Some (foldl (\<lambda>winner player. if handValue player > handValue winner then player else winner)
                     first activePlayers)))"

section \<open>Users and the ledger (models/User.js, models/Transaction.js)\<close>

record userDoc =
  username :: string
  chips :: int
  totalChipsWon :: int
  totalChipsLost :: int
  gamesPlayed :: int
  gamesWon :: int
  currentGameId :: "nat option"

datatype chipOperation = Add | Subtract | SetTo

text \<open>\<^verbatim>\<open>updateChips(amount, operation)\<close>, on the loaded user document.\<close>

definition updateChips :: "userDoc \<Rightarrow> int \<Rightarrow> chipOperation \<Rightarrow> exn + userDoc" where
  "updateChips u amt operation =
     (case operation of
        Add \<Rightarrow> Inr (u\<lparr>chips := chips u + amt\<rparr>)
      | Subtract \<Rightarrow>
          if chips u < amt then Inl InsufficientChips else Inr (u\<lparr>chips := chips u - amt\<rparr>)
      | SetTo \<Rightarrow> Inr (u\<lparr>chips := amt\<rparr>))"

datatype txType =
    GameWin | GameLoss | TransferSend | TransferReceive | AdminAdd | AdminDeduct
  | CommissionDeduct | RegistrationBonus | Refund

record transaction =
  txType :: txType
  txTo :: "uid option"
  txAmount :: int
  balanceBefore :: int
  balanceAfter :: int
  txGameId :: "nat option"

text \<open>
  What the handlers read and write: the stored game, the user collection, the
  transaction collection, and \<^verbatim>\<open>process.env.PLATFORM_COMMISSION_RATE\<close> as
  \<^verbatim>\<open>parseFloat\<close> reads it (\<^term>\<open>None\<close> when it is unset or not a number). The rate
  is an exact rational here; the code computes with doubles.
\<close>

record state =
  game :: "card game"
  users :: "uid \<rightharpoonup> userDoc"
  transactions :: "transaction list"
  commissionEnv :: "rat option"

text \<open>
  \<^verbatim>\<open>Transaction.createTransaction\<close>: it reads the recipient's balance, computes the
  balance after the transaction, writes that balance to the user
  (\<^verbatim>\<open>User.findByIdAndUpdate(to, { chips: balanceAfter })\<close>) and stores the record.
\<close>

definition createTransaction :: "txType \<Rightarrow> uid \<Rightarrow> int \<Rightarrow> nat option \<Rightarrow> state \<Rightarrow> exn + state" where
  "createTransaction ty to amt gid s =
     (case users s to of
        None \<Rightarrow> Inl RecipientNotFound
      | Some recipient \<Rightarrow>
          let b0 = chips recipient;
              credit = (ty \<in> set [GameWin, TransferReceive, AdminAdd, RegistrationBonus, Refund]);
              debit = (ty \<in> set [GameLoss, TransferSend, AdminDeduct, CommissionDeduct]);
              b1 = (if credit then b0 + amt else if debit then b0 - amt else b0)
          in if \<not> credit \<and> debit \<and> b1 < 0 then Inl InsufficientBalance
             else Inr (s\<lparr>users := (users s)(to \<mapsto> recipient\<lparr>chips := b1\<rparr>),
                         transactions := transactions s @
                           [\<lparr>txType = ty, txTo = Some to, txAmount = amt, balanceBefore = b0,
                             balanceAfter = b1, txGameId = gid\<rparr>]\<rparr>))"

definition createGameWinTransaction :: "uid \<Rightarrow> int \<Rightarrow> nat \<Rightarrow> state \<Rightarrow> exn + state" where
  "createGameWinTransaction userId amt gid s = createTransaction GameWin userId amt (Some gid) s"

definition createGameLossTransaction :: "uid \<Rightarrow> int \<Rightarrow> nat \<Rightarrow> state \<Rightarrow> exn + state" where
  "createGameLossTransaction userId amt gid s = createTransaction GameLoss userId amt (Some gid) s"

text \<open>\<^verbatim>\<open>createCommissionTransaction\<close> stores a record with no recipient and touches no balance.\<close>

definition createCommissionTransaction :: "int \<Rightarrow> nat \<Rightarrow> state \<Rightarrow> state" where
  "createCommissionTransaction amt gid s =
     s\<lparr>transactions := transactions s @
          [\<lparr>txType = CommissionDeduct, txTo = None, txAmount = amt, balanceBefore = 0,
            balanceAfter = 0, txGameId = Some gid\<rparr>]\<rparr>"

section \<open>Settlement (socket/socketHandler.js, endGame)\<close>

text \<open>\<^verbatim>\<open>parseFloat(process.env.PLATFORM_COMMISSION_RATE) || 0.03\<close>: zero is falsy too.\<close>

definition commissionRate :: "rat option \<Rightarrow> rat" where
  "commissionRate env = (case env of None \<Rightarrow> 3 / 100 | Some r \<Rightarrow> if r = 0 then 3 / 100 else r)"

definition commissionOf :: "state \<Rightarrow> int \<Rightarrow> int" where
  "commissionOf s p = \<lfloor>of_int p * commissionRate (commissionEnv s)\<rfloor>"

text \<open>
  The first \<^verbatim>\<open>Promise.all\<close> of \<^verbatim>\<open>endGame\<close>: every player's user is loaded, counted
  as having played, charged the loss in the statistics unless it is the winner, and
  saved. A user that is not found throws in that player's callback only, the other
  callbacks still run; the flag says whether all were found. The callbacks are taken in
  seat order.
\<close>

fun updatePlayerStats :: "uid \<Rightarrow> 'c player list \<Rightarrow> (uid \<rightharpoonup> userDoc) \<Rightarrow> (uid \<rightharpoonup> userDoc) \<times> bool" where
  "updatePlayerStats w [] us = (us, True)"
| "updatePlayerStats w (p # ps) us =
     (case us (user p) of
        None \<Rightarrow> (fst (updatePlayerStats w ps us), False)
      | Some u \<Rightarrow>
          let u1 = u\<lparr>gamesPlayed := gamesPlayed u + 1\<rparr>;
              u2 = (if user p \<noteq> w then u1\<lparr>totalChipsLost := totalChipsLost u1 + totalBet p\<rparr> else u1);
              u3 = u2\<lparr>currentGameId := None\<rparr>
          in updatePlayerStats w ps (us(user p \<mapsto> u3)))"

text \<open>
  The second \<^verbatim>\<open>Promise.all\<close>: a loss transaction for every player other than the
  winner who has bet. A transaction that throws leaves the others running; the flag
  says whether all were stored.
\<close>

fun createLossTransactions :: "uid \<Rightarrow> nat \<Rightarrow> 'c player list \<Rightarrow> state \<Rightarrow> state \<times> bool" where
  "createLossTransactions w gid [] s = (s, True)"
| "createLossTransactions w gid (p # ps) s =
     (if user p \<noteq> w \<and> totalBet p > 0 then
        (case createGameLossTransaction (user p) (totalBet p) gid s of
           Inl e \<Rightarrow> (fst (createLossTransactions w gid ps s), False)
         | Inr s' \<Rightarrow> createLossTransactions w gid ps s')
      else createLossTransactions w gid ps s)"

text \<open>
  \<^verbatim>\<open>endGame(game, winner)\<close>, on the game object \<open>g\<close> the caller holds. Everything runs
  inside \<^verbatim>\<open>try\<close>; an exception is logged and \<^verbatim>\<open>endGame\<close> returns, so what was
  stored up to that point stays and the game, saved last, is not stored.
\<close>

definition endGame :: "state \<Rightarrow> card game \<Rightarrow> card player \<Rightarrow> state" where
  "endGame s g w =
     (let g1 = g\<lparr>status := Completed, winner := Some (user w), winningHand := Some (handRank w)\<rparr>;
          commission = commissionOf s (pot g1);
          winnings = pot g1 - commission
      in case users s (user w) of
           None \<Rightarrow> s
         | Some winnerUser \<Rightarrow>
             (case updateChips winnerUser winnings Add of
                Inl e \<Rightarrow> s
              | Inr wu1 \<Rightarrow>
                  let wu2 = wu1\<lparr>gamesWon := gamesWon wu1 + 1,
                                gamesPlayed := gamesPlayed wu1 + 1,
                                totalChipsWon := totalChipsWon wu1 + winnings\<rparr>;
                      (us, found) = updatePlayerStats (user w) (players g1) ((users s)(user w \<mapsto> wu2));
                      s1 = s\<lparr>users := us\<rparr>
                  in if \<not> found then s1
                     else
                       (case createGameWinTransaction (user w) winnings (gameId g1) s1 of
                          Inl e \<Rightarrow> s1
                        | Inr s2 \<Rightarrow>
                            let s3 = createCommissionTransaction commission (gameId g1) s2;
                                (s4, stored) = createLossTransactions (user w) (gameId g1) (players g1) s3
                            in if stored then s4\<lparr>game := g1\<rparr> else s4)))"

section \<open>The action handlers (socket/socketHandler.js)\<close>

text \<open>
  What a handler tells the acting socket: nothing (the action went through and is
  broadcast), or \<^verbatim>\<open>socket.emit('error', { message })\<close>, one constructor per message.
  \<open>FailedToProcess\<close> is the message of the \<^verbatim>\<open>catch\<close> in \<^verbatim>\<open>handleGameAction\<close>.
\<close>

datatype err =
    GameNotFound
  | NotInThisGame
  | NotYourTurn
  | InvalidAction
  | FailedToProcess
  | InsufficientChipsToCall
  | RaiseOutOfRange int int
  | InsufficientChipsToRaise
  | CannotCheck
  | InsufficientChipsForBlind

datatype reply = Accepted | Rejected err

text \<open>
  The \<^verbatim>\<open>while\<close> loop of \<^verbatim>\<open>moveToNextPlayer\<close>. It has no bound of its own, so it
  is a partial function: \<^term>\<open>None\<close> is a loop that does not end.
\<close>

partial_function (option) nextSeat :: "'c player list \<Rightarrow> nat \<Rightarrow> nat option" where
  "nextSeat ps nextIndex =
     (if isFolded (ps ! nextIndex) \<or> \<not> isPlaying (ps ! nextIndex)
      then nextSeat ps ((nextIndex + 1) mod length ps)
      else Some nextIndex)"

declare nextSeat.simps [code]

definition moveToNextPlayer :: "'c game \<Rightarrow> 'c game option" where
  "moveToNextPlayer g =
     (if length (filter stillIn (players g)) \<le> 1 then Some g
      else map_option (\<lambda>nextIndex. g\<lparr>currentPlayerIndex := nextIndex\<rparr>)
             (nextSeat (players g) ((currentPlayerIndex g + 1) mod length (players g))))"

text \<open>
  \<^verbatim>\<open>game.players.findIndex(p => p.user._id.toString() === socket.userId)\<close> on the
  populated game: a player whose user document does not exist is populated with
  \<^verbatim>\<open>null\<close>, and reading \<^verbatim>\<open>_id\<close> of it throws.
\<close>

fun findPlayerIndex :: "(uid \<rightharpoonup> userDoc) \<Rightarrow> 'c player list \<Rightarrow> uid \<Rightarrow> nat \<Rightarrow> exn + nat option" where
  "findPlayerIndex us [] userId k = Inr None"
| "findPlayerIndex us (p # ps) userId k =
     (case us (user p) of
        None \<Rightarrow> Inl TypeError
      | Some u \<Rightarrow> if user p = userId then Inr (Some k) else findPlayerIndex us ps userId (k + 1))"

text \<open>
  Each handler takes the stored state and the seat of the acting player. It returns
  the reply and the state that is stored when it is done; an exception it throws
  reaches the \<^verbatim>\<open>catch\<close> of \<^verbatim>\<open>handleGameAction\<close>.
\<close>

definition handleFold :: "state \<Rightarrow> nat \<Rightarrow> (reply \<times> state) option" where
  "handleFold s playerIndex =
     (let g = game s; p = players g ! playerIndex in
      case users s (user p) of
        None \<Rightarrow> Some (Rejected FailedToProcess, s)
      | Some u \<Rightarrow>
          let p' = p\<lparr>isFolded := True, isPlaying := False, lastAction := Some Fold\<rparr>;
              g1 = g\<lparr>players := (players g)[playerIndex := p']\<rparr>;
              g2 = addToHistory g1 Fold (user p) 0 (Folded (username u));
              activePlayers = filter stillIn (players g2)
          in if length activePlayers = 1 then Some (Accepted, endGame s g2 (activePlayers ! 0))
             else map_option (\<lambda>g3. (Accepted, s\<lparr>game := g3\<rparr>)) (moveToNextPlayer g2))"

definition handleCall :: "state \<Rightarrow> nat \<Rightarrow> (reply \<times> state) option" where
  "handleCall s playerIndex =
     (let g = game s; p = players g ! playerIndex in
      case users s (user p) of
        None \<Rightarrow> Some (Rejected FailedToProcess, s)
      | Some u \<Rightarrow>
          let callAmount = gameCurrentBet g - currentBet p in
          if chips u < callAmount then Some (Rejected InsufficientChipsToCall, s)
          else
            (case updateChips u callAmount Subtract of
               Inl e \<Rightarrow> Some (Rejected FailedToProcess, s)
             | Inr u' \<Rightarrow>
                 let p' = p\<lparr>currentBet := currentBet p + callAmount,
                            totalBet := totalBet p + callAmount,
                            lastAction := Some Call\<rparr>;
                     g1 = g\<lparr>players := (players g)[playerIndex := p'], pot := pot g + callAmount\<rparr>;
                     g2 = addToHistory g1 Call (user p) callAmount (Called (username u) callAmount)
                 in map_option (\<lambda>g3. (Accepted, s\<lparr>game := g3, users := (users s)(user p \<mapsto> u')\<rparr>))
                      (moveToNextPlayer g2)))"

definition handleRaise :: "state \<Rightarrow> nat \<Rightarrow> int \<Rightarrow> (reply \<times> state) option" where
  "handleRaise s playerIndex raiseAmount =
     (let g = game s; p = players g ! playerIndex in
      if raiseAmount < minBet g \<or> raiseAmount > maxBet g
      then Some (Rejected (RaiseOutOfRange (minBet g) (maxBet g)), s)
      else
        (case users s (user p) of
           None \<Rightarrow> Some (Rejected FailedToProcess, s)
         | Some u \<Rightarrow>
             let totalRequired = gameCurrentBet g - currentBet p + raiseAmount in
             if chips u < totalRequired then Some (Rejected InsufficientChipsToRaise, s)
             else
               (case updateChips u totalRequired Subtract of
                  Inl e \<Rightarrow> Some (Rejected FailedToProcess, s)
                | Inr u' \<Rightarrow>
                    let p' = p\<lparr>currentBet := currentBet p + totalRequired,
                               totalBet := totalBet p + totalRequired,
                               lastAction := Some Raise\<rparr>;
                        g1 = g\<lparr>players := (players g)[playerIndex := p'],
                               gameCurrentBet := gameCurrentBet g + raiseAmount,
                               pot := pot g + totalRequired\<rparr>;
                        g2 = addToHistory g1 Raise (user p) totalRequired
                               (RaisedBy (username u) raiseAmount)
                    in map_option (\<lambda>g3. (Accepted, s\<lparr>game := g3, users := (users s)(user p \<mapsto> u')\<rparr>))
                         (moveToNextPlayer g2))))"

definition handleCheck :: "state \<Rightarrow> nat \<Rightarrow> (reply \<times> state) option" where
  "handleCheck s playerIndex =
     (let g = game s; p = players g ! playerIndex in
      if gameCurrentBet g > currentBet p then Some (Rejected CannotCheck, s)
      else
        (case users s (user p) of
           None \<Rightarrow> Some (Rejected FailedToProcess, s)
         | Some u \<Rightarrow>
             let p' = p\<lparr>lastAction := Some Check\<rparr>;
                 g1 = g\<lparr>players := (players g)[playerIndex := p']\<rparr>;
                 g2 = addToHistory g1 Check (user p) 0 (Checked (username u))
             in map_option (\<lambda>g3. (Accepted, s\<lparr>game := g3\<rparr>)) (moveToNextPlayer g2)))"

definition handleShow :: "state \<Rightarrow> nat \<Rightarrow> (reply \<times> state) option" where
  "handleShow s playerIndex =
     (let g = game s; p = players g ! playerIndex in
      case users s (user p) of
        None \<Rightarrow> Some (Rejected FailedToProcess, s)
      | Some u \<Rightarrow>
          let p' = p\<lparr>isBlind := False, lastAction := Some Show\<rparr>;
              g1 = g\<lparr>players := (players g)[playerIndex := p']\<rparr>;
              g2 = addToHistory g1 Show (user p) 0 (ShowedCards (username u))
          in Some (Accepted, s\<lparr>game := g2\<rparr>))"

definition handleBlind :: "state \<Rightarrow> nat \<Rightarrow> (reply \<times> state) option" where
  "handleBlind s playerIndex =
     (let g = game s; p = players g ! playerIndex in
      case users s (user p) of
        None \<Rightarrow> Some (Rejected FailedToProcess, s)
      | Some u \<Rightarrow>
          let blindAmount = minBet g in
          if chips u < blindAmount then Some (Rejected InsufficientChipsForBlind, s)
          else
            (case updateChips u blindAmount Subtract of
               Inl e \<Rightarrow> Some (Rejected FailedToProcess, s)
             | Inr u' \<Rightarrow>
                 let p' = p\<lparr>currentBet := currentBet p + blindAmount,
                            totalBet := totalBet p + blindAmount,
                            lastAction := Some Blind,
                            isBlind := True\<rparr>;
                     g1 = g\<lparr>players := (players g)[playerIndex := p'], pot := pot g + blindAmount\<rparr>;
                     g2 = (if blindAmount > gameCurrentBet g1 then g1\<lparr>gameCurrentBet := blindAmount\<rparr> else g1);
                     g3 = addToHistory g2 Blind (user p) blindAmount (PlayedBlind (username u) blindAmount)
                 in map_option (\<lambda>g4. (Accepted, s\<lparr>game := g4, users := (users s)(user p \<mapsto> u')\<rparr>))
                      (moveToNextPlayer g3)))"

text \<open>
  \<^verbatim>\<open>handleGameAction\<close>: the game is looked up by its id, the sender by the user id of
  the socket; only the player whose turn it is may act.
\<close>

definition handleGameAction :: "state \<Rightarrow> uid \<Rightarrow> nat \<Rightarrow> action \<Rightarrow> int \<Rightarrow> (reply \<times> state) option" where
  "handleGameAction s userId gid a amt =
     (if gid \<noteq> gameId (game s) then Some (Rejected GameNotFound, s)
      else
        (case findPlayerIndex (users s) (players (game s)) userId 0 of
           Inl e \<Rightarrow> Some (Rejected FailedToProcess, s)
         | Inr None \<Rightarrow> Some (Rejected NotInThisGame, s)
         | Inr (Some playerIndex) \<Rightarrow>
             if currentPlayerIndex (game s) \<noteq> playerIndex then Some (Rejected NotYourTurn, s)
             else
               (case a of
                  Fold \<Rightarrow> handleFold s playerIndex
                | Call \<Rightarrow> handleCall s playerIndex
                | Raise \<Rightarrow> handleRaise s playerIndex amt
                | Check \<Rightarrow> handleCheck s playerIndex
                | Show \<Rightarrow> handleShow s playerIndex
                | Blind \<Rightarrow> handleBlind s playerIndex
                | OtherAction \<Rightarrow> Some (Rejected InvalidAction, s))))"

subsection \<open>The view sent to a client\<close>





section \<open>Leaving a game (routes/admin.js, POST /leave)\<close>

datatype httpReply = NotInAnyGame | GameNotFound404 | SuccessfullyLeft

text \<open>
  \<^verbatim>\<open>User.findByIdAndUpdate(id, { currentGameId: null })\<close>; a user that is not stored
  is left alone.
\<close>

definition clearCurrentGame :: "state \<Rightarrow> uid \<Rightarrow> state" where
  "clearCurrentGame s userId =
     (case users s userId of
        None \<Rightarrow> s
      | Some u \<Rightarrow> s\<lparr>users := (users s)(userId \<mapsto> u\<lparr>currentGameId := None\<rparr>)\<rparr>)"

text \<open>
  The route, for the authenticated user \<open>reqUser\<close> with id \<open>userId\<close> (the middleware
  that loads it is not part of this development, so it is a parameter).
\<close>

definition leave :: "state \<Rightarrow> uid \<Rightarrow> userDoc \<Rightarrow> httpReply \<times> state" where
  "leave s userId reqUser =
     (case currentGameId reqUser of
        None \<Rightarrow> (NotInAnyGame, s)
      | Some gid \<Rightarrow>
          if gid \<noteq> gameId (game s) then (GameNotFound404, clearCurrentGame s userId)
          else
            let g = game s in
            if status g = Active then
              (case find (\<lambda>i. user (players g ! i) = userId) [0..<length (players g)] of
                 None \<Rightarrow> (SuccessfullyLeft, clearCurrentGame s userId)
               | Some playerIndex \<Rightarrow>
                   let p' = (players g ! playerIndex)\<lparr>isFolded := True, isPlaying := False\<rparr>;
                       g1 = g\<lparr>players := (players g)[playerIndex := p']\<rparr>;
                       g2 = addToHistory g1 Fold userId 0 (LeftTheGame (username reqUser));
                       activePlayers = filter stillIn (players g2);
                       g3 = (if length activePlayers = 1
                             then g2\<lparr>status := Completed, winner := Some (user (activePlayers ! 0))\<rparr>
                             else g2)
                   in (SuccessfullyLeft, clearCurrentGame (s\<lparr>game := g3\<rparr>) userId))
            else (SuccessfullyLeft, clearCurrentGame (s\<lparr>game := removePlayer g userId\<rparr>) userId))"


section \<open>Concrete hands, games and users\<close>

definition colorHand :: "card list" where
  "colorHand = [\<lparr>suit = ''hearts'', rank = ''A''\<rparr>, \<lparr>suit = ''hearts'', rank = ''K''\<rparr>,
                \<lparr>suit = ''hearts'', rank = ''J''\<rparr>]"

definition sequenceHand :: "card list" where
  "sequenceHand = [\<lparr>suit = ''hearts'', rank = ''2''\<rparr>, \<lparr>suit = ''diamonds'', rank = ''3''\<rparr>,
                   \<lparr>suit = ''clubs'', rank = ''4''\<rparr>]"

text \<open>The player \<^verbatim>\<open>addPlayer\<close> pushes, with the schema's defaults for the other fields.\<close>

definition newPlayer :: "uid \<Rightarrow> nat \<Rightarrow> card player" where
  "newPlayer userId pos =
     \<lparr>user = userId, position = pos, cards = [], handRank = HighCard, handValue = 0,
      isPlaying = True, isFolded = False, isBlind = True, currentBet = 0, totalBet = 0,
      lastAction = None\<rparr>"

definition newUser :: "string \<Rightarrow> int \<Rightarrow> userDoc" where
  "newUser name c =
     \<lparr>username = name, chips = c, totalChipsWon = 0, totalChipsLost = 0, gamesPlayed = 0,
      gamesWon = 0, currentGameId = Some 7\<rparr>"

text \<open>
  An active game (id 7) of two players, users 1 and 2 with 100 chips each, bets between
  10 and 100, nothing bet yet, seat 0 to act. The first player holds the color hand, the
  second the sequence.
\<close>

definition table2 :: state where
  "table2 =
     \<lparr>game = \<lparr>gameId = 7, status = Active, maxPlayers = 6, minBet = 10, maxBet = 100,
              gameCurrentBet = 0, pot = 0,
              players = [(newPlayer 1 0)\<lparr>cards := colorHand, handRank := Color, handValue := 4541\<rparr>,
                         (newPlayer 2 1)\<lparr>cards := sequenceHand, handRank := Sequence, handValue := 4002\<rparr>],
              currentPlayerIndex = 0, deck = [], winner = None, winningHand = None,
              gameHistory = []\<rparr>,
      users = [1 \<mapsto> newUser ''amir'' 100, 2 \<mapsto> newUser ''bina'' 100],
      transactions = [], commissionEnv = None\<rparr>"

text \<open>
  The two-player game after a blind of 10 by the first player, the second player, whose
  turn it is, holding 5 chips.
\<close>

definition shortStack :: state where
  "shortStack =
     \<lparr>game = \<lparr>gameId = 7, status = Active, maxPlayers = 6, minBet = 10, maxBet = 100,
              gameCurrentBet = 10, pot = 10,
              players = [(newPlayer 1 0)\<lparr>currentBet := 10, totalBet := 10, lastAction := Some Blind\<rparr>,
                         newPlayer 2 1],
              currentPlayerIndex = 1, deck = [], winner = None, winningHand = None,
              gameHistory = [\<lparr>action = Blind, player = 1, amount = 10,
                              details = PlayedBlind ''amir'' 10\<rparr>]\<rparr>,
      users = [1 \<mapsto> newUser ''amir'' 90, 2 \<mapsto> newUser ''bina'' 5],
      transactions = [], commissionEnv = None\<rparr>"

text \<open>
  A game of three players: the first has folded a trail, the second and the third hold
  sequences of the same value.
\<close>

definition tiedGame :: "card game" where
  "tiedGame =
     \<lparr>gameId = 7, status = Active, maxPlayers = 6, minBet = 10, maxBet = 100,
      gameCurrentBet = 10, pot = 30,
      players = [(newPlayer 1 0)\<lparr>handRank := Trail, handValue := 6014, isFolded := True,
                                 isPlaying := False\<rparr>,
                 (newPlayer 2 1)\<lparr>handRank := Sequence, handValue := 4002\<rparr>,
                 (newPlayer 3 2)\<lparr>handRank := Sequence, handValue := 4002\<rparr>],
      currentPlayerIndex = 1, deck = [], winner = None, winningHand = None,
      gameHistory = []\<rparr>"



text \<open>A waiting game of three players, and an active game with eighteen seats.\<close>

definition lobby :: state where
  "lobby =
     \<lparr>game = \<lparr>gameId = 7, status = Waiting, maxPlayers = 6, minBet = 10, maxBet = 100,
              gameCurrentBet = 0, pot = 0,
              players = [newPlayer 1 0, newPlayer 2 1, newPlayer 3 2],
              currentPlayerIndex = 0, deck = [], winner = None, winningHand = None,
              gameHistory = []\<rparr>,
      users = [1 \<mapsto> newUser ''amir'' 100, 2 \<mapsto> newUser ''bina'' 100,
               3 \<mapsto> newUser ''chitra'' 100],
      transactions = [], commissionEnv = None\<rparr>"

definition crowd :: "card game" where
  "crowd = (game table2)\<lparr>players := map (\<lambda>k. newPlayer k k) [0..<18]\<rparr>"

section \<open>Hand values across categories\<close>

text \<open>
  C1. The claim: of two hands in different categories, the hand in the higher category
  has the greater hand value. The code does not do that for color against sequence. The
  color hand A-K-J of hearts is valued \<open>3000 + 14 * 100 + 13 * 10 + 11 = 4541\<close>, the
  sequence 2-3-4 of mixed suits is valued \<open>4000 + 2 = 4002\<close>: the sequence is the higher
  category and has the lower value.
\<close>

theorem color_hand_outvalues_sequence_hand:
  "evaluateHand colorHand = Color \<and> evaluateHand sequenceHand = Sequence \<and>
   categoryIndex Color < categoryIndex Sequence \<and>
   getHandValue colorHand (evaluateHand colorHand) = Some 4541 \<and>
   getHandValue sequenceHand (evaluateHand sequenceHand) = Some 4002"
  by code_simp

section \<open>Settlement\<close>


subsection \<open>What a call of endGame does\<close>












section \<open>Rejected actions\<close>

lemma findPlayerIndex_found:
  "findPlayerIndex us ps userId k = Inr (Some i) \<Longrightarrow>
     k \<le> i \<and> i - k < length ps \<and> user (ps ! (i - k)) = userId"
proof (induction ps arbitrary: k)
  case Nil
  then show ?case by simp
next
  case (Cons p ps)
  show ?case
  proof (cases "user p = userId")
    case True
    then show ?thesis using Cons.prems by (auto split: option.splits)
  next
    case False
    then have "findPlayerIndex us ps userId (k + 1) = Inr (Some i)"
      using Cons.prems by (auto split: option.splits)
    from Cons.IH[OF this] have ih: "k + 1 \<le> i" "i - (k + 1) < length ps"
      "user (ps ! (i - (k + 1))) = userId" by auto
    then have "i - k = Suc (i - (k + 1))" by arith
    then show ?thesis using ih by auto
  qed
qed


lemma accepted_is_not_rejected:
  "map_option (\<lambda>g. (Accepted, f g)) x \<noteq> Some (Rejected e, s')"
  by (cases x) auto

lemma handleFold_rejected: "handleFold s i = Some (Rejected e, s') \<Longrightarrow> s' = s"
  by (auto simp: handleFold_def Let_def accepted_is_not_rejected split: option.splits if_splits)

lemma handleCall_rejected: "handleCall s i = Some (Rejected e, s') \<Longrightarrow> s' = s"
  by (auto simp: handleCall_def Let_def accepted_is_not_rejected
      split: option.splits if_splits sum.splits)

lemma handleRaise_rejected: "handleRaise s i a = Some (Rejected e, s') \<Longrightarrow> s' = s"
  by (auto simp: handleRaise_def Let_def accepted_is_not_rejected
      split: option.splits if_splits sum.splits)

lemma handleCheck_rejected: "handleCheck s i = Some (Rejected e, s') \<Longrightarrow> s' = s"
  by (auto simp: handleCheck_def Let_def accepted_is_not_rejected
      split: option.splits if_splits)

lemma handleShow_rejected: "handleShow s i = Some (Rejected e, s') \<Longrightarrow> s' = s"
  by (auto simp: handleShow_def Let_def split: option.splits)

lemma handleBlind_rejected: "handleBlind s i = Some (Rejected e, s') \<Longrightarrow> s' = s"
  by (auto simp: handleBlind_def Let_def accepted_is_not_rejected
      split: option.splits if_splits sum.splits)

lemma handleGameAction_rejected:
  "handleGameAction s userId gid a amt = Some (Rejected e, s') \<Longrightarrow> s' = s"
  unfolding handleGameAction_def
  by (auto split: if_splits sum.splits option.splits action.splits
      dest: handleFold_rejected handleCall_rejected handleRaise_rejected handleCheck_rejected
        handleShow_rejected handleBlind_rejected)



section \<open>The winner\<close>

lemma foldl_first_max:
  "foldl (\<lambda>winner player. if handValue player > handValue winner then player else winner) w xs =
     (case find (\<lambda>p. handValue w < handValue p \<and> (\<forall>q\<in>set xs. handValue q \<le> handValue p)) xs of
        None \<Rightarrow> w | Some p \<Rightarrow> p)"
proof (induction xs arbitrary: w)
  case Nil
  then show ?case by simp
next
  case (Cons x xs)
  show ?case
  proof (cases "handValue w < handValue x")
    case True
    note wx = True
    show ?thesis
    proof (cases "\<forall>q\<in>set xs. handValue q \<le> handValue x")
      case True
      then have "find (\<lambda>p. handValue x < handValue p \<and> (\<forall>q\<in>set xs. handValue q \<le> handValue p)) xs = None"
        by (auto simp: find_None_iff)
      with True wx Cons.IH[of x] show ?thesis by simp
    next
      case False
      then obtain r where r: "r \<in> set xs" "handValue x < handValue r" by force
      have "\<And>p. p \<in> set xs \<Longrightarrow>
              (handValue x < handValue p \<and> (\<forall>q\<in>set xs. handValue q \<le> handValue p)) =
              (handValue w < handValue p \<and> (\<forall>q\<in>set (x # xs). handValue q \<le> handValue p))"
        using r wx by fastforce
      then have eq:
        "find (\<lambda>p. handValue x < handValue p \<and> (\<forall>q\<in>set xs. handValue q \<le> handValue p)) xs =
         find (\<lambda>p. handValue w < handValue p \<and> (\<forall>q\<in>set (x # xs). handValue q \<le> handValue p)) xs"
        by (intro find_cong) auto
      have "find (\<lambda>p. handValue x < handValue p \<and> (\<forall>q\<in>set xs. handValue q \<le> handValue p)) xs \<noteq> None"
      proof -
        have fin: "finite (handValue ` set xs)" and ne: "handValue ` set xs \<noteq> {}"
          using r by auto
        from Max_in[OF fin ne] obtain m
          where m: "m \<in> set xs" "handValue m = Max (handValue ` set xs)" by auto
        have "\<forall>q\<in>set xs. handValue q \<le> handValue m"
          using m(2) fin by (auto intro: Max_ge)
        moreover from this r have "handValue x < handValue m" by force
        ultimately show ?thesis using m(1) by (auto simp: find_None_iff)
      qed
      then show ?thesis using False wx Cons.IH[of x] eq by (auto split: option.splits)
    qed
  next
    case False
    have "find (\<lambda>p. handValue w < handValue p \<and> (\<forall>q\<in>set xs. handValue q \<le> handValue p)) xs =
          find (\<lambda>p. handValue w < handValue p \<and> (\<forall>q\<in>set (x # xs). handValue q \<le> handValue p)) xs"
      using False by (intro find_cong) auto
    with False Cons.IH[of w] show ?thesis by simp
  qed
qed

lemma find_filter: "find P (filter Q xs) = find (\<lambda>x. Q x \<and> P x) xs"
  by (induction xs) auto

lemma find_max_exists:
  "xs \<noteq> [] \<Longrightarrow> find (\<lambda>p. \<forall>q\<in>set xs. handValue q \<le> handValue p) xs \<noteq> None"
proof -
  assume "xs \<noteq> []"
  then have fin: "finite (handValue ` set xs)" and ne: "handValue ` set xs \<noteq> {}" by auto
  from Max_in[OF fin ne] obtain m
    where m: "m \<in> set xs" "handValue m = Max (handValue ` set xs)" by auto
  have "\<forall>q\<in>set xs. handValue q \<le> handValue m"
    using m(2) fin by (auto intro: Max_ge)
  then show ?thesis using m(1) by (auto simp: find_None_iff)
qed

lemma first_max_of_list:
  "foldl (\<lambda>winner player. if handValue player > handValue winner then player else winner) x (x # xs) =
     the (find (\<lambda>p. \<forall>q\<in>set (x # xs). handValue q \<le> handValue p) (x # xs))"
proof -
  have start: "foldl (\<lambda>winner player. if handValue player > handValue winner then player else winner) x (x # xs) =
      foldl (\<lambda>winner player. if handValue player > handValue winner then player else winner) x xs"
    by simp
  show ?thesis
  proof (cases "\<forall>q\<in>set xs. handValue q \<le> handValue x")
    case True
    then have "find (\<lambda>p. handValue x < handValue p \<and> (\<forall>q\<in>set xs. handValue q \<le> handValue p)) xs = None"
      by (auto simp: find_None_iff)
    then show ?thesis using True start by (simp only: foldl_first_max[of x xs]) simp
  next
    case False
    then obtain r where r: "r \<in> set xs" "handValue x < handValue r" by force
    have "\<And>p. p \<in> set xs \<Longrightarrow>
            (handValue x < handValue p \<and> (\<forall>q\<in>set xs. handValue q \<le> handValue p)) =
            (\<forall>q\<in>set (x # xs). handValue q \<le> handValue p)"
      using r by fastforce
    then have eq:
      "find (\<lambda>p. handValue x < handValue p \<and> (\<forall>q\<in>set xs. handValue q \<le> handValue p)) xs =
       find (\<lambda>p. \<forall>q\<in>set (x # xs). handValue q \<le> handValue p) xs"
      by (intro find_cong) auto
    have "find (\<lambda>p. \<forall>q\<in>set (x # xs). handValue q \<le> handValue p) (x # xs) \<noteq> None"
      using find_max_exists[of "x # xs"] by simp
    then show ?thesis using False eq start
      by (simp only: foldl_first_max[of x xs]) (auto split: option.splits)
  qed
qed

text \<open>
  C10. \<^verbatim>\<open>determineWinner\<close> returns the first player in seat order among those who
  have not folded and are still playing whose hand value is maximal among them: one
  player, never several, and no player only when nobody is left. With equal maximal
  values the earliest seat wins, since every earlier player still in the game has a
  strictly smaller value.
\<close>

theorem determineWinner_first_maximal:
  "determineWinner g =
     find (\<lambda>p. stillIn p \<and> (\<forall>q\<in>set (players g). stillIn q \<longrightarrow> handValue q \<le> handValue p))
       (players g) \<and>
   (determineWinner g = Some w \<longleftrightarrow>
      (\<exists>i<length (players g). players g ! i = w \<and> stillIn w \<and>
         (\<forall>q\<in>set (players g). stillIn q \<longrightarrow> handValue q \<le> handValue w) \<and>
         (\<forall>j<i. stillIn (players g ! j) \<longrightarrow> handValue (players g ! j) < handValue w))) \<and>
   (determineWinner g = None \<longleftrightarrow> filter stillIn (players g) = [])"
proof -
  let ?act = "filter stillIn (players g)"
  let ?P = "\<lambda>p. stillIn p \<and> (\<forall>q\<in>set (players g). stillIn q \<longrightarrow> handValue q \<le> handValue p)"
  have rhs: "find ?P (players g) = find (\<lambda>p. \<forall>q\<in>set ?act. handValue q \<le> handValue p) ?act"
    unfolding find_filter by (rule find_cong) auto
  have eq: "determineWinner g = find ?P (players g)"
  proof (cases ?act)
    case Nil
    then show ?thesis unfolding rhs by (simp add: determineWinner_def elemAt_def)
  next
    case (Cons x xs)
    have "find (\<lambda>p. \<forall>q\<in>set ?act. handValue q \<le> handValue p) ?act \<noteq> None"
      using find_max_exists[of ?act] Cons by simp
    then obtain m where m: "find (\<lambda>p. \<forall>q\<in>set ?act. handValue q \<le> handValue p) ?act = Some m"
      by auto
    have "determineWinner g =
        Some (foldl (\<lambda>winner player. if handValue player > handValue winner then player else winner)
                x (x # xs))"
      using Cons by (cases xs) (simp_all add: determineWinner_def elemAt_def)
    also have "\<dots> = Some m" using m first_max_of_list[of x xs] Cons by simp
    finally show ?thesis unfolding rhs using m by simp
  qed
  have none: "determineWinner g = None \<longleftrightarrow> ?act = []"
  proof
    assume "determineWinner g = None"
    then have "find (\<lambda>p. \<forall>q\<in>set ?act. handValue q \<le> handValue p) ?act = None"
      using eq rhs by simp
    then show "?act = []" using find_max_exists[of ?act] by blast
  next
    assume "?act = []"
    then show "determineWinner g = None" using eq rhs by simp
  qed
  have some: "determineWinner g = Some w \<longleftrightarrow>
      (\<exists>i<length (players g). players g ! i = w \<and> stillIn w \<and>
         (\<forall>q\<in>set (players g). stillIn q \<longrightarrow> handValue q \<le> handValue w) \<and>
         (\<forall>j<i. stillIn (players g ! j) \<longrightarrow> handValue (players g ! j) < handValue w))"
    (is "?L \<longleftrightarrow> ?R")
  proof
    assume ?L
    then obtain i where i: "i < length (players g)" "?P (players g ! i)" "w = players g ! i"
      "\<forall>j<i. \<not> ?P (players g ! j)"
      unfolding eq find_Some_iff by blast
    have "handValue (players g ! j) < handValue w" if "j < i" "stillIn (players g ! j)" for j
    proof -
      from i(4) that obtain q where q: "q \<in> set (players g)" "stillIn q"
        "\<not> handValue q \<le> handValue (players g ! j)" by blast
      with i(2,3) have "handValue q \<le> handValue w" by blast
      with q(3) show ?thesis by simp
    qed
    with i show ?R by blast
  next
    assume ?R
    then obtain i where i: "i < length (players g)" "players g ! i = w" "?P w"
      "\<forall>j<i. stillIn (players g ! j) \<longrightarrow> handValue (players g ! j) < handValue w"
      by blast
    have "\<not> ?P (players g ! j)" if "j < i" for j
    proof
      assume a: "?P (players g ! j)"
      with i(4) that have "handValue (players g ! j) < handValue w" by blast
      moreover have "w \<in> set (players g)" using i(1,2) by (metis nth_mem)
      ultimately show False using a i(3) by force
    qed
    with i show ?L unfolding eq find_Some_iff by blast
  qed
  show ?thesis using eq none some by blast
qed

text \<open>
  Seat 0 has folded the best hand; seats 1 and 2 are tied on 4002, and seat 1 is the
  winner.
\<close>

theorem determineWinner_first_maximal_witness:
  "determineWinner tiedGame = Some (players tiedGame ! 1) \<and>
   handValue (players tiedGame ! 1) = handValue (players tiedGame ! 2) \<and>
   stillIn (players tiedGame ! 2) \<and>
   filter stillIn (players tiedGame) \<noteq> []"
  using determineWinner_first_maximal[of tiedGame "players tiedGame ! 1"]
  by (simp add: tiedGame_def newPlayer_def stillIn_def)

section \<open>Whose turn it is\<close>

lemma nextSeat_found:
  "k < length ps \<Longrightarrow> stillIn (ps ! ((k + d) mod length ps)) \<Longrightarrow>
   \<forall>e<d. \<not> stillIn (ps ! ((k + e) mod length ps)) \<Longrightarrow>
   nextSeat ps k = Some ((k + d) mod length ps)"
proof (induction d arbitrary: k)
  case 0
  then show ?case by (subst nextSeat.simps) (simp add: stillIn_def)
next
  case (Suc d)
  let ?n = "length ps"
  let ?k = "(k + 1) mod ?n"
  have out: "\<not> stillIn (ps ! k)" using Suc.prems(1,3) by (metis add.right_neutral mod_less zero_less_Suc)
  have k': "?k < ?n" using Suc.prems(1) by (intro mod_less_divisor) auto
  have idx: "(?k + e) mod ?n = (k + Suc e) mod ?n" for e
    by (simp add: mod_add_left_eq)
  have "nextSeat ps ?k = Some ((?k + d) mod ?n)"
  proof (rule Suc.IH[OF k'])
    show "stillIn (ps ! ((?k + d) mod ?n))" using Suc.prems(2) idx[of d] by simp
    show "\<forall>e<d. \<not> stillIn (ps ! ((?k + e) mod ?n))" using Suc.prems(3) idx by auto
  qed
  then show ?case using out idx[of d]
    by (subst nextSeat.simps) (auto simp: stillIn_def)
qed

lemma least_distance:
  assumes "k < length ps" "a < length ps" "stillIn (ps ! a)"
  shows "\<exists>d<length ps. stillIn (ps ! ((k + d) mod length ps)) \<and>
           (\<forall>e<d. \<not> stillIn (ps ! ((k + e) mod length ps)))"
proof -
  let ?n = "length ps"
  let ?P = "\<lambda>d. stillIn (ps ! ((k + d) mod ?n))"
  let ?d0 = "(a + ?n - k) mod ?n"
  have "(k + ?d0) mod ?n = (k + (a + ?n - k)) mod ?n" by (simp add: mod_add_right_eq)
  also have "\<dots> = a" using assms(1,2) by simp
  finally have P0: "?P ?d0" using assms(3) by simp
  have d0: "?d0 < ?n" using assms(1) by (intro mod_less_divisor) auto
  have "?P (LEAST d. ?P d)" using P0 by (rule LeastI)
  moreover have "(LEAST d. ?P d) \<le> ?d0" using P0 by (rule Least_le)
  moreover have "\<forall>e<(LEAST d. ?P d). \<not> ?P e" using not_less_Least by blast
  ultimately show ?thesis using d0 by (intro exI[of _ "LEAST d. ?P d"]) auto
qed

lemma moveToNextPlayer_advances:
  assumes "2 \<le> length (filter stillIn (players g))"
  shows "\<exists>d. 0 < d \<and> d \<le> length (players g) \<and>
     moveToNextPlayer g = Some (g\<lparr>currentPlayerIndex := (currentPlayerIndex g + d) mod length (players g)\<rparr>) \<and>
     stillIn (players g ! ((currentPlayerIndex g + d) mod length (players g))) \<and>
     (\<forall>e. 0 < e \<and> e < d \<longrightarrow> \<not> stillIn (players g ! ((currentPlayerIndex g + e) mod length (players g))))"
proof -
  let ?ps = "players g"
  let ?n = "length ?ps"
  let ?i = "currentPlayerIndex g"
  let ?k = "(?i + 1) mod ?n"
  from assms have "filter stillIn ?ps \<noteq> []" by auto
  then obtain p where "p \<in> set ?ps" "stillIn p" by (metis filter_False)
  then obtain a where a: "a < ?n" "stillIn (?ps ! a)" by (metis in_set_conv_nth)
  then have k: "?k < ?n" by (intro mod_less_divisor) auto
  from least_distance[OF k a] obtain d where d: "d < ?n" "stillIn (?ps ! ((?k + d) mod ?n))"
    "\<forall>e<d. \<not> stillIn (?ps ! ((?k + e) mod ?n))" by blast
  have idx: "(?k + e) mod ?n = (?i + Suc e) mod ?n" for e
    by (simp add: mod_add_left_eq)
  have "nextSeat ?ps ?k = Some ((?i + Suc d) mod ?n)"
    using nextSeat_found[OF k d(2,3)] idx[of d] by simp
  then have "moveToNextPlayer g = Some (g\<lparr>currentPlayerIndex := (?i + Suc d) mod ?n\<rparr>)"
    using assms by (simp add: moveToNextPlayer_def)
  moreover have "stillIn (?ps ! ((?i + Suc d) mod ?n))" using d(2) idx[of d] by simp
  moreover have "\<forall>e. 0 < e \<and> e < Suc d \<longrightarrow> \<not> stillIn (?ps ! ((?i + e) mod ?n))"
  proof (intro allI impI)
    fix e assume e: "0 < e \<and> e < Suc d"
    then obtain e' where e': "e = Suc e'" "e' < d" by (cases e) auto
    then show "\<not> stillIn (?ps ! ((?i + e) mod ?n))" using d(3) idx[of e'] by auto
  qed
  ultimately show ?thesis using d(1) by (intro exI[of _ "Suc d"]) auto
qed











lemma moveToNextPlayer_returns: "\<exists>g'. moveToNextPlayer g = Some g'"
proof (cases "length (filter stillIn (players g)) \<le> 1")
  case True
  then show ?thesis by (simp add: moveToNextPlayer_def)
next
  case False
  then have "2 \<le> length (filter stillIn (players g))" by simp
  from moveToNextPlayer_advances[OF this] show ?thesis by blast
qed

lemma moved_returns: "map_option f (moveToNextPlayer g) \<noteq> None"
  using moveToNextPlayer_returns[of g] by auto










section \<open>The pot\<close>

lemma sum_list_update_int:
  "i < length xs \<Longrightarrow> sum_list (xs[i := x]) = sum_list xs - xs ! i + (x :: int)"
proof (induction xs arbitrary: i)
  case Nil
  then show ?case by simp
next
  case (Cons y ys)
  then show ?case by (cases i) auto
qed

lemma total_bets_update:
  "i < length ps \<Longrightarrow>
   sum_list (map totalBet (ps[i := p'])) = sum_list (map totalBet ps) - totalBet (ps ! i) + totalBet p'"
  by (simp add: map_update sum_list_update_int)

lemma moveToNextPlayer_keeps:
  "moveToNextPlayer g = Some g' \<Longrightarrow> players g' = players g \<and> pot g' = pot g"
  by (auto simp: moveToNextPlayer_def split: if_splits)

lemma moved_keeps:
  "map_option f (moveToNextPlayer g) = Some x \<Longrightarrow>
   \<exists>g'. x = f g' \<and> players g' = players g \<and> pot g' = pot g"
  using moveToNextPlayer_keeps by (cases "moveToNextPlayer g") auto

lemma createLossTransactions_game: "game (fst (createLossTransactions w gid ps s)) = game s"
  by (induction ps arbitrary: s)
     (auto simp: createGameLossTransaction_def createTransaction_def Let_def
           split: option.splits sum.splits if_splits)

lemma endGame_game:
  "game (endGame s g w) = game s \<or>
   game (endGame s g w) = g\<lparr>status := Completed, winner := Some (user w), winningHand := Some (handRank w)\<rparr>"
  by (auto simp: endGame_def Let_def updateChips_def createGameWinTransaction_def createTransaction_def
        createCommissionTransaction_def createLossTransactions_game case_prod_unfold
      split: option.splits sum.splits if_splits)

text \<open>
  Every action, accepted or rejected, keeps the pot equal to the sum of the players'
  total bets: what an action adds to the acting player's total bet it adds to the pot.
\<close>

lemma pot_is_sum_of_total_bets:
  assumes "handleGameAction s userId gid a amt = Some (r, s')"
    and inv: "pot (game s) = sum_list (map totalBet (players (game s)))"
  shows "pot (game s') = sum_list (map totalBet (players (game s')))"
proof (cases r)
  case (Rejected e)
  with assms(1) have "s' = s" by (simp add: handleGameAction_rejected)
  with inv show ?thesis by simp
next
  case Accepted
  from assms(1) Accepted obtain i where i: "findPlayerIndex (users s) (players (game s)) userId 0 = Inr (Some i)"
    and h: "(case a of Fold \<Rightarrow> handleFold s i | Call \<Rightarrow> handleCall s i | Raise \<Rightarrow> handleRaise s i amt
            | Check \<Rightarrow> handleCheck s i | Show \<Rightarrow> handleShow s i | Blind \<Rightarrow> handleBlind s i
            | OtherAction \<Rightarrow> Some (Rejected InvalidAction, s)) = Some (Accepted, s')"
    by (auto simp: handleGameAction_def split: if_splits sum.splits option.splits)
  from findPlayerIndex_found[OF i] have il: "i < length (players (game s))" by simp
  show ?thesis
  proof (cases a)
    case Fold
    with h have f: "handleFold s i = Some (Accepted, s')" by simp
    then obtain u where u: "users s (user (players (game s) ! i)) = Some u"
      by (auto simp: handleFold_def Let_def split: option.splits)
    define p' where "p' = (players (game s) ! i)\<lparr>isFolded := True, isPlaying := False, lastAction := Some Fold\<rparr>"
    define g2 where "g2 = addToHistory ((game s)\<lparr>players := (players (game s))[i := p']\<rparr>)
        Fold (user (players (game s) ! i)) 0 (Folded (username u))"
    have g2: "pot g2 = sum_list (map totalBet (players g2))"
      using inv il by (simp add: g2_def addToHistory_def total_bets_update p'_def)
    show ?thesis
    proof (cases "length (filter stillIn (players g2)) = 1")
      case True
      then have "s' = endGame s g2 (filter stillIn (players g2) ! 0)"
        using f u by (simp add: handleFold_def Let_def g2_def p'_def)
      then show ?thesis using endGame_game[of s g2 "filter stillIn (players g2) ! 0"] inv g2 by auto
    next
      case False
      then have "map_option (\<lambda>g3. (Accepted, s\<lparr>game := g3\<rparr>)) (moveToNextPlayer g2) = Some (Accepted, s')"
        using f u by (simp add: handleFold_def Let_def g2_def p'_def)
      from moved_keeps[OF this] show ?thesis using g2 by auto
    qed
  next
    case Call
    with h have f: "handleCall s i = Some (Accepted, s')" by simp
    then obtain u u' where u: "users s (user (players (game s) ! i)) = Some u"
      "updateChips u (gameCurrentBet (game s) - currentBet (players (game s) ! i)) Subtract = Inr u'"
      by (auto simp: handleCall_def Let_def split: option.splits if_splits sum.splits)
    define ca where "ca = gameCurrentBet (game s) - currentBet (players (game s) ! i)"
    define p' where "p' = (players (game s) ! i)\<lparr>currentBet := currentBet (players (game s) ! i) + ca,
        totalBet := totalBet (players (game s) ! i) + ca, lastAction := Some Call\<rparr>"
    define g2 where "g2 = addToHistory ((game s)\<lparr>players := (players (game s))[i := p'], pot := pot (game s) + ca\<rparr>)
        Call (user (players (game s) ! i)) ca (Called (username u) ca)"
    have g2: "pot g2 = sum_list (map totalBet (players g2))"
      using inv il by (simp add: g2_def addToHistory_def total_bets_update p'_def)
    have "map_option (\<lambda>g3. (Accepted, s\<lparr>game := g3, users := (users s)(user (players (game s) ! i) \<mapsto> u')\<rparr>))
        (moveToNextPlayer g2) = Some (Accepted, s')"
      using f u by (simp add: handleCall_def Let_def ca_def p'_def g2_def split: if_splits)
    from moved_keeps[OF this] show ?thesis using g2 by auto
  next
    case Raise
    with h have f: "handleRaise s i amt = Some (Accepted, s')" by simp
    define tr where "tr = gameCurrentBet (game s) - currentBet (players (game s) ! i) + amt"
    from f obtain u u' where u: "users s (user (players (game s) ! i)) = Some u"
      "updateChips u tr Subtract = Inr u'"
      "\<not> (amt < minBet (game s) \<or> amt > maxBet (game s))" "\<not> chips u < tr"
      by (auto simp: handleRaise_def Let_def tr_def split: option.splits if_splits sum.splits)
    define p' where "p' = (players (game s) ! i)\<lparr>currentBet := currentBet (players (game s) ! i) + tr,
        totalBet := totalBet (players (game s) ! i) + tr, lastAction := Some Raise\<rparr>"
    define g2 where "g2 = addToHistory ((game s)\<lparr>players := (players (game s))[i := p'],
        gameCurrentBet := gameCurrentBet (game s) + amt, pot := pot (game s) + tr\<rparr>)
        Raise (user (players (game s) ! i)) tr (RaisedBy (username u) amt)"
    have g2: "pot g2 = sum_list (map totalBet (players g2))"
      using inv il by (simp add: g2_def addToHistory_def total_bets_update p'_def)
    have "map_option (\<lambda>g3. (Accepted, s\<lparr>game := g3, users := (users s)(user (players (game s) ! i) \<mapsto> u')\<rparr>))
        (moveToNextPlayer g2) = Some (Accepted, s')"
      using f u by (simp add: handleRaise_def Let_def tr_def p'_def g2_def)
    from moved_keeps[OF this] show ?thesis using g2 by auto
  next
    case Check
    with h have f: "handleCheck s i = Some (Accepted, s')" by simp
    then obtain u where u: "users s (user (players (game s) ! i)) = Some u"
      "\<not> gameCurrentBet (game s) > currentBet (players (game s) ! i)"
      by (auto simp: handleCheck_def Let_def split: option.splits if_splits)
    define p' where "p' = (players (game s) ! i)\<lparr>lastAction := Some Check\<rparr>"
    define g2 where "g2 = addToHistory ((game s)\<lparr>players := (players (game s))[i := p']\<rparr>)
        Check (user (players (game s) ! i)) 0 (Checked (username u))"
    have g2: "pot g2 = sum_list (map totalBet (players g2))"
      using inv il by (simp add: g2_def addToHistory_def total_bets_update p'_def)
    have "map_option (\<lambda>g3. (Accepted, s\<lparr>game := g3\<rparr>)) (moveToNextPlayer g2) = Some (Accepted, s')"
      using f u by (simp add: handleCheck_def Let_def p'_def g2_def)
    from moved_keeps[OF this] show ?thesis using g2 by auto
  next
    case Show
    with h have f: "handleShow s i = Some (Accepted, s')" by simp
    then show ?thesis using inv il
      by (auto simp: handleShow_def Let_def addToHistory_def total_bets_update split: option.splits)
  next
    case Blind
    with h have f: "handleBlind s i = Some (Accepted, s')" by simp
    define b where "b = minBet (game s)"
    from f obtain u u' where u: "users s (user (players (game s) ! i)) = Some u"
      "updateChips u b Subtract = Inr u'" "\<not> chips u < b"
      by (auto simp: handleBlind_def Let_def b_def split: option.splits if_splits sum.splits)
    define p' where "p' = (players (game s) ! i)\<lparr>currentBet := currentBet (players (game s) ! i) + b,
        totalBet := totalBet (players (game s) ! i) + b, lastAction := Some Blind, isBlind := True\<rparr>"
    define g1 where "g1 = (game s)\<lparr>players := (players (game s))[i := p'], pot := pot (game s) + b\<rparr>"
    define g3 where "g3 = addToHistory (if b > gameCurrentBet g1 then g1\<lparr>gameCurrentBet := b\<rparr> else g1)
        Blind (user (players (game s) ! i)) b (PlayedBlind (username u) b)"
    have g3: "pot g3 = sum_list (map totalBet (players g3))"
      using inv il by (simp add: g3_def g1_def addToHistory_def total_bets_update p'_def)
    have "map_option (\<lambda>g4. (Accepted, s\<lparr>game := g4, users := (users s)(user (players (game s) ! i) \<mapsto> u')\<rparr>))
        (moveToNextPlayer g3) = Some (Accepted, s')"
      using f u
      by (cases "gameCurrentBet (game s) < minBet (game s)")
         (simp_all add: handleBlind_def Let_def b_def p'_def g1_def g3_def)
    from moved_keeps[OF this] show ?thesis using g3 by auto
  next
    case OtherAction
    with h show ?thesis by simp
  qed
qed


section \<open>Leaving\<close>

lemma game_clearCurrentGame [simp]: "game (clearCurrentGame s u) = game s"
  by (simp add: clearCurrentGame_def split: option.splits)

lemma find_first_index:
  assumes "i < n" "P i" "\<forall>j<i. \<not> P j"
  shows "find P [0..<n] = Some i"
  using assms by (subst find_Some_iff) (auto intro!: exI[of _ i])

lemma removePlayer_positions:
  "map position (players (removePlayer g userId)) =
     [0..<length (filter (\<lambda>p. user p \<noteq> userId) (players g))]"
  by (auto simp: removePlayer_def Let_def comp_def case_prod_unfold intro!: nth_equalityI)

lemma removePlayer_users:
  "map user (players (removePlayer g userId)) = map user (filter (\<lambda>p. user p \<noteq> userId) (players g))"
  by (auto simp: removePlayer_def Let_def comp_def case_prod_unfold intro!: nth_equalityI)

text \<open>
  C5. The claim: when fewer than two players remain in an active game, leaving cancels
  it. The route does not: in the active two-player game the first player leaves, both
  players stay in the list, and the game is completed with the second player as
  winner.
\<close>

theorem leave_completes_active_game:
  "(\<lambda>(r, s). (r, status (game s), winner (game s), length (players (game s))))
     (leave table2 1 (newUser ''amir'' 100)) = (SuccessfullyLeft, Completed, Some 2, 2)"
  by code_simp

text \<open>
  C5, as the code has it, for a user whose current game is this one. In an active game
  the first seat of that user is marked folded and not playing and a fold is logged;
  the players list keeps its length and the pot its chips; the game is completed, with
  the one player still in as winner, when exactly one is left, and stays active
  otherwise (it is never cancelled by the route). In a waiting game the user is removed
  and the remaining players get the positions \<open>0, 1, ...\<close> in order; the game stays
  waiting. The transition to cancelled is in \<^verbatim>\<open>removePlayer\<close> alone, for an active
  game left with fewer than two players, and the route calls \<^verbatim>\<open>removePlayer\<close> only
  when the game is not active.
\<close>

theorem leave_folds_or_removes:
  assumes "currentGameId reqUser = Some (gameId (game s))"
  shows
  "(status (game s) = Active \<and> i < length (players (game s)) \<and>
    user (players (game s) ! i) = userId \<and> (\<forall>j<i. user (players (game s) ! j) \<noteq> userId) \<longrightarrow>
      (let g' = game (snd (leave s userId reqUser)) in
         fst (leave s userId reqUser) = SuccessfullyLeft \<and>
         players g' = (players (game s))[i := (players (game s) ! i)\<lparr>isFolded := True, isPlaying := False\<rparr>] \<and>
         pot g' = pot (game s) \<and>
         gameHistory g' = gameHistory (game s) @
           [\<lparr>action = Fold, player = userId, amount = 0, details = LeftTheGame (username reqUser)\<rparr>] \<and>
         status g' = (if length (filter stillIn (players g')) = 1 then Completed else Active) \<and>
         winner g' = (if length (filter stillIn (players g')) = 1
                      then Some (user (filter stillIn (players g') ! 0)) else winner (game s)))) \<and>
   (status (game s) = Waiting \<longrightarrow>
      (let g' = game (snd (leave s userId reqUser));
           kept = filter (\<lambda>p. user p \<noteq> userId) (players (game s)) in
         fst (leave s userId reqUser) = SuccessfullyLeft \<and>
         status g' = Waiting \<and>
         map user (players g') = map user kept \<and>
         map position (players g') = [0..<length kept] \<and>
         pot g' = pot (game s) \<and> gameHistory g' = gameHistory (game s))) \<and>
   (status (game s) = Active \<and> length (filter (\<lambda>p. user p \<noteq> userId) (players (game s))) < 2 \<longrightarrow>
      status (removePlayer (game s) userId) = Cancelled)"
proof (intro conjI impI)
  assume a: "status (game s) = Active \<and> i < length (players (game s)) \<and>
    user (players (game s) ! i) = userId \<and> (\<forall>j<i. user (players (game s) ! j) \<noteq> userId)"
  then have f: "find (\<lambda>i. user (players (game s) ! i) = userId) [0..<length (players (game s))] = Some i"
    by (intro find_first_index) auto
  show "let g' = game (snd (leave s userId reqUser)) in
         fst (leave s userId reqUser) = SuccessfullyLeft \<and>
         players g' = (players (game s))[i := (players (game s) ! i)\<lparr>isFolded := True, isPlaying := False\<rparr>] \<and>
         pot g' = pot (game s) \<and>
         gameHistory g' = gameHistory (game s) @
           [\<lparr>action = Fold, player = userId, amount = 0, details = LeftTheGame (username reqUser)\<rparr>] \<and>
         status g' = (if length (filter stillIn (players g')) = 1 then Completed else Active) \<and>
         winner g' = (if length (filter stillIn (players g')) = 1
                      then Some (user (filter stillIn (players g') ! 0)) else winner (game s))"
    using assms a f by (simp add: leave_def Let_def addToHistory_def)
next
  assume w: "status (game s) = Waiting"
  show "let g' = game (snd (leave s userId reqUser));
           kept = filter (\<lambda>p. user p \<noteq> userId) (players (game s)) in
         fst (leave s userId reqUser) = SuccessfullyLeft \<and>
         status g' = Waiting \<and>
         map user (players g') = map user kept \<and>
         map position (players g') = [0..<length kept] \<and>
         pot g' = pot (game s) \<and> gameHistory g' = gameHistory (game s)"
    using assms w removePlayer_positions[of "game s" userId] removePlayer_users[of "game s" userId]
    by (simp add: leave_def Let_def) (simp add: removePlayer_def Let_def)
next
  assume "status (game s) = Active \<and> length (filter (\<lambda>p. user p \<noteq> userId) (players (game s))) < 2"
  then show "status (removePlayer (game s) userId) = Cancelled"
    by (simp add: removePlayer_def Let_def)
qed

text \<open>
  The player who has bet 10 leaves the active game: folded, the 10 chips stay in the
  pot, the game is completed. The second of three players leaves the waiting game: the
  others take positions 0 and 1.
\<close>

theorem leave_folds_or_removes_witness:
  "fst (leave shortStack 1 (newUser ''amir'' 90)) = SuccessfullyLeft \<and>
   map isFolded (players (game (snd (leave shortStack 1 (newUser ''amir'' 90))))) = [True, False] \<and>
   map totalBet (players (game (snd (leave shortStack 1 (newUser ''amir'' 90))))) = [10, 0] \<and>
   pot (game (snd (leave shortStack 1 (newUser ''amir'' 90)))) = 10 \<and>
   status (game (snd (leave shortStack 1 (newUser ''amir'' 90)))) = Completed \<and>
   map user (players (game (snd (leave lobby 2 (newUser ''bina'' 100))))) = [1, 3] \<and>
   map position (players (game (snd (leave lobby 2 (newUser ''bina'' 100))))) = [0, 1] \<and>
   status (game (snd (leave lobby 2 (newUser ''bina'' 100)))) = Waiting \<and>
   status (removePlayer (game shortStack) 1) = Cancelled"
proof -
  have g: "currentGameId (newUser ''amir'' 90) = Some (gameId (game shortStack))"
    "currentGameId (newUser ''bina'' 100) = Some (gameId (game lobby))"
    by (simp_all add: newUser_def shortStack_def lobby_def)
  have a: "status (game shortStack) = Active \<and> 0 < length (players (game shortStack)) \<and>
      user (players (game shortStack) ! 0) = 1 \<and> (\<forall>j<0. user (players (game shortStack) ! j) \<noteq> 1)"
    "status (game shortStack) = Active \<and>
      length (filter (\<lambda>p. user p \<noteq> 1) (players (game shortStack))) < 2"
    by (simp_all add: shortStack_def newPlayer_def)
  have w: "status (game lobby) = Waiting"
    "filter (\<lambda>p. user p \<noteq> 2) (players (game lobby)) = [newPlayer 1 0, newPlayer 3 2]"
    by (simp_all add: lobby_def newPlayer_def)
  have ps: "players (game shortStack) =
      [(newPlayer 1 0)\<lparr>currentBet := 10, totalBet := 10, lastAction := Some Blind\<rparr>, newPlayer 2 1]"
    "pot (game shortStack) = 10"
    by (simp_all add: shortStack_def)
  from leave_folds_or_removes[OF g(1), of 0 1] a ps
  have "fst (leave shortStack 1 (newUser ''amir'' 90)) = SuccessfullyLeft \<and>
   map isFolded (players (game (snd (leave shortStack 1 (newUser ''amir'' 90))))) = [True, False] \<and>
   map totalBet (players (game (snd (leave shortStack 1 (newUser ''amir'' 90))))) = [10, 0] \<and>
   pot (game (snd (leave shortStack 1 (newUser ''amir'' 90)))) = 10 \<and>
   status (game (snd (leave shortStack 1 (newUser ''amir'' 90)))) = Completed \<and>
   status (removePlayer (game shortStack) 1) = Cancelled"
    by (simp add: Let_def newPlayer_def stillIn_def)
  moreover from leave_folds_or_removes[OF g(2), of 0 2] w
  have "map user (players (game (snd (leave lobby 2 (newUser ''bina'' 100))))) = [1, 3] \<and>
   map position (players (game (snd (leave lobby 2 (newUser ''bina'' 100))))) = [0, 1] \<and>
   status (game (snd (leave lobby 2 (newUser ''bina'' 100)))) = Waiting"
    by (simp add: Let_def newPlayer_def upt_rec)
  ultimately show ?thesis by blast
qed

section \<open>Dealing\<close>

lemma pop_rev: "pop d = (case rev d of [] \<Rightarrow> (None, []) | c # r \<Rightarrow> (Some c, rev r))"
  by (cases d rule: rev_cases) (auto simp: pop_def)

lemma popCards_rev:
  "popCards n d = (map Some (take n (rev d)) @ replicate (n - length d) None, rev (drop n (rev d)))"
proof (induction n arbitrary: d)
  case 0
  then show ?case by simp
next
  case (Suc n)
  show ?case
  proof (cases d rule: rev_cases)
    case Nil
    then show ?thesis using Suc.IH[of "[]"] by (simp add: pop_def replicate_app_Cons_same)
  next
    case (snoc ys y)
    then show ?thesis using Suc.IH[of ys] by (simp add: pop_def)
  qed
qed

lemma shuffleLoop_mset:
  "k < length xs \<Longrightarrow> \<forall>i. rnd i \<le> i \<Longrightarrow> mset (shuffleLoop rnd k xs) = mset xs"
proof (induction k arbitrary: xs)
  case 0
  then show ?case by simp
next
  case (Suc k)
  have j: "rnd (Suc k) < length xs" using Suc.prems by (meson le_less_trans)
  have "mset (xs[Suc k := xs ! rnd (Suc k), rnd (Suc k) := xs ! Suc k]) = mset xs"
    using Suc.prems(1) j by (simp add: mset_swap)
  moreover have "k < length (xs[Suc k := xs ! rnd (Suc k), rnd (Suc k) := xs ! Suc k])"
    using Suc.prems(1) by simp
  ultimately show ?case using Suc.IH[OF _ Suc.prems(2)] by (simp add: Let_def)
qed

lemma shuffleDeck_mset: "\<forall>i. rnd i \<le> i \<Longrightarrow> mset (shuffleDeck rnd d) = mset d"
  by (cases "d = []") (simp_all add: shuffleDeck_def shuffleLoop_mset)

lemma sort3:
  "sort [x, y, z :: 'a :: linorder] =
     (if x \<le> y then (if y \<le> z then [x, y, z] else if x \<le> z then [x, z, y] else [z, x, y])
      else (if x \<le> z then [y, x, z] else if y \<le> z then [y, z, x] else [z, y, x]))"
  by auto

lemma rankValue_distinct: "distinct (map getRankValue ranks)"
  by code_simp

lemma rankValue_inj:
  "r \<in> set ranks \<Longrightarrow> r' \<in> set ranks \<Longrightarrow> getRankValue r = getRankValue r' \<Longrightarrow> r = r'"
  using rankValue_distinct by (auto simp: distinct_map inj_on_def)

lemma upt3: "[0..<3] = [0, 1, 2]"
  by (simp add: numeral_3_eq_3)

lemma pair_high:
  fixes p r :: int
  assumes "p \<noteq> r"
  shows "map_option fst (find (\<lambda>(val, idx). indexOf [p, p, r] val \<noteq> int idx) (zip [p, p, r] [0..<3])) = Some p \<and>
         find (\<lambda>val. val \<noteq> p) [p, p, r] = Some r"
  using assms by (simp add: upt3)

lemma pair_low:
  fixes p q :: int
  assumes "p \<noteq> q"
  shows "map_option fst (find (\<lambda>(val, idx). indexOf [p, q, q] val \<noteq> int idx) (zip [p, q, q] [0..<3])) = Some q \<and>
         find (\<lambda>val. val \<noteq> q) [p, q, q] = Some p"
  using assms by (simp add: upt3)

lemma sorted_pair_shape:
  fixes x y z :: int
  assumes "x = y \<or> y = z \<or> x = z" "\<not> (x = y \<and> y = z)"
  shows "(\<exists>p r. p \<noteq> r \<and> rev (sort [x, y, z]) = [p, p, r]) \<or>
         (\<exists>p q. p \<noteq> q \<and> rev (sort [x, y, z]) = [p, q, q])"
  using assms unfolding sort3 by (auto split: if_splits)


lemma sorted_triple_eqs:
  fixes x y z :: "'a :: linorder"
  shows "(sort [x, y, z] ! 0 = sort [x, y, z] ! 1 \<and> sort [x, y, z] ! 1 = sort [x, y, z] ! 2) = (x = y \<and> y = z)"
    and "(sort [x, y, z] ! 0 = sort [x, y, z] ! 1 \<or> sort [x, y, z] ! 1 = sort [x, y, z] ! 2 \<or>
          sort [x, y, z] ! 0 = sort [x, y, z] ! 2) = (x = y \<or> y = z \<or> x = z)"
  unfolding sort3 by auto

lemma evaluateHand_Pair:
  assumes "evaluateHand cs = Pair"
  shows "\<not> (sort (map rank cs) ! 0 = sort (map rank cs) ! 1 \<and>
            sort (map rank cs) ! 1 = sort (map rank cs) ! 2) \<and>
         (sort (map rank cs) ! 0 = sort (map rank cs) ! 1 \<or>
          sort (map rank cs) ! 1 = sort (map rank cs) ! 2 \<or>
          sort (map rank cs) ! 0 = sort (map rank cs) ! 2)"
  using assms unfolding evaluateHand_def Let_def by (simp split: if_splits)

lemma getHandValue_defined:
  assumes "length hand = 3" "\<forall>c\<in>set hand. rank c \<in> set ranks"
  shows "\<exists>v. getHandValue hand (evaluateHand hand) = Some v"
proof -
  from assms(1) obtain a b c where hand: "hand = [a, b, c]"
    by (metis (no_types, opaque_lifting) length_0_conv length_Suc_conv numeral_3_eq_3)
  define rv where "rv = rev (sort (map (\<lambda>c. getRankValue (rank c)) hand))"
  have len: "length rv = 3" by (simp add: rv_def assms(1))
  then have ne: "rv \<noteq> []" by auto
  show ?thesis
  proof (cases "evaluateHand hand")
    case Pair
    from evaluateHand_Pair[OF Pair]
    have "rank a = rank b \<or> rank b = rank c \<or> rank a = rank c" "\<not> (rank a = rank b \<and> rank b = rank c)"
      unfolding hand list.map sorted_triple_eqs by auto
    with assms(2) have "getRankValue (rank a) = getRankValue (rank b) \<or>
        getRankValue (rank b) = getRankValue (rank c) \<or> getRankValue (rank a) = getRankValue (rank c)"
      "\<not> (getRankValue (rank a) = getRankValue (rank b) \<and> getRankValue (rank b) = getRankValue (rank c))"
      unfolding hand by (auto dest: rankValue_inj)
    from sorted_pair_shape[OF this] have
      "(\<exists>p r. p \<noteq> r \<and> rv = [p, p, r]) \<or> (\<exists>p q. p \<noteq> q \<and> rv = [p, q, q])"
      unfolding rv_def hand by simp
    then show ?thesis
    proof (elim disjE exE conjE)
      fix p r assume "p \<noteq> r" "rv = [p, p, r]"
      then show ?thesis using pair_high[of p r]
        unfolding Pair getHandValue_def Let_def rv_def[symmetric] by (simp add: upt3)
    next
      fix p q assume "p \<noteq> q" "rv = [p, q, q]"
      then show ?thesis using pair_low[of p q]
        unfolding Pair getHandValue_def Let_def rv_def[symmetric] by (simp add: upt3)
    qed
  qed (simp_all add: getHandValue_def Let_def elemAt_def rv_def[symmetric] len ne)
qed
lemma dealLoop_enough:
  assumes "3 * length ps \<le> length d" "\<forall>c\<in>set d. rank c \<in> set ranks"
  shows "\<exists>ps' d'. dealLoop d ps = Inr (ps', d') \<and> length ps' = length ps \<and>
     concat (map cards ps') = take (3 * length ps) (rev d) \<and>
     rev d' = drop (3 * length ps) (rev d) \<and>
     (\<forall>p\<in>set ps'. length (cards p) = 3) \<and> map user ps' = map user ps"
  using assms
proof (induction ps arbitrary: d)
  case Nil
  then show ?case by simp
next
  case (Cons p ps)
  let ?hand = "take 3 (rev d)"
  let ?d1 = "rev (drop 3 (rev d))"
  have pc: "popCards 3 d = (map Some ?hand, ?d1)"
    using Cons.prems(1) by (simp add: popCards_rev)
  have len: "length ?hand = 3" using Cons.prems(1) by simp
  have valid: "\<forall>c\<in>set ?hand. rank c \<in> set ranks"
    using Cons.prems(2) by (auto dest!: in_set_takeD)
  from getHandValue_defined[OF len valid] obtain v
    where v: "getHandValue ?hand (evaluateHand ?hand) = Some v" by blast
  have "3 * length ps \<le> length ?d1" using Cons.prems(1) by simp
  moreover have "\<forall>c\<in>set ?d1. rank c \<in> set ranks"
    using Cons.prems(2) by (auto dest!: in_set_dropD)
  ultimately obtain ps' d' where ih: "dealLoop ?d1 ps = Inr (ps', d')" "length ps' = length ps"
    "concat (map cards ps') = take (3 * length ps) (rev ?d1)"
    "rev d' = drop (3 * length ps) (rev ?d1)"
    "\<forall>p\<in>set ps'. length (cards p) = 3" "map user ps' = map user ps"
    using Cons.IH[of ?d1] by blast
  have the_hand: "map the (map Some ?hand) = ?hand" by (simp add: comp_def)
  have "dealLoop d (p # ps) =
      Inr (p\<lparr>cards := ?hand, handRank := evaluateHand ?hand, handValue := v\<rparr> # ps', d')"
    using pc v ih(1) the_hand by (simp add: Let_def del: popCards.simps) 
  moreover have "?hand @ take (3 * length ps) (drop 3 (rev d)) = take (3 * length (p # ps)) (rev d)"
    by (simp add: take_add[symmetric] del: take_add)
  ultimately show ?case using ih len
    by (intro exI[of _ "p\<lparr>cards := ?hand, handRank := evaluateHand ?hand, handValue := v\<rparr> # ps'"] exI[of _ d'])
       (simp add: add.commute)
qed

lemma dealLoop_short:
  assumes "length d < 3 * length ps" "\<forall>c\<in>set d. rank c \<in> set ranks"
  shows "dealLoop d ps = Inl TypeError"
  using assms
proof (induction ps arbitrary: d)
  case Nil
  then show ?case by simp
next
  case (Cons p ps)
  show ?case
  proof (cases "length d < 3")
    case True
    then have "None \<in> set (fst (popCards 3 d))"
      by (simp add: popCards_rev)
    then show ?thesis by (simp add: Let_def case_prod_unfold del: popCards.simps)
  next
    case False
    let ?hand = "take 3 (rev d)"
    let ?d1 = "rev (drop 3 (rev d))"
    have pc: "popCards 3 d = (map Some ?hand, ?d1)"
      using False by (simp add: popCards_rev)
    have len: "length ?hand = 3" using False by simp
    have valid: "\<forall>c\<in>set ?hand. rank c \<in> set ranks"
      using Cons.prems(2) by (auto dest!: in_set_takeD)
    from getHandValue_defined[OF len valid] obtain v
      where v: "getHandValue ?hand (evaluateHand ?hand) = Some v" by blast
    have "length ?d1 < 3 * length ps" using Cons.prems(1) False by simp
    moreover have "\<forall>c\<in>set ?d1. rank c \<in> set ranks"
      using Cons.prems(2) by (auto dest!: in_set_dropD)
    ultimately have ih: "dealLoop ?d1 ps = Inl TypeError" by (rule Cons.IH)
    have the_hand: "map the (map Some ?hand) = ?hand" by (simp add: comp_def)
    show ?thesis using pc v ih the_hand by (simp add: Let_def del: popCards.simps)
  qed
qed

lemma createDeck_facts:
  "length createDeck = 52" "distinct createDeck" "\<forall>c\<in>set createDeck. rank c \<in> set ranks"
  by code_simp+
lemma popCards_short: "length d < n \<Longrightarrow> None \<in> set (fst (popCards n d)) \<and> snd (popCards n d) = []"
  by (simp add: popCards_rev)

lemma shuffled_deck:
  assumes "\<forall>i. rnd i \<le> i"
  shows "length (shuffleDeck rnd createDeck) = 52"
    "\<forall>c\<in>set (shuffleDeck rnd createDeck). rank c \<in> set ranks"
    "mset (shuffleDeck rnd createDeck) = mset createDeck"
proof -
  show m: "mset (shuffleDeck rnd createDeck) = mset createDeck"
    using assms by (rule shuffleDeck_mset)
  from m have "length (shuffleDeck rnd createDeck) = length createDeck"
    by (metis size_mset)
  then show "length (shuffleDeck rnd createDeck) = 52" by (simp add: createDeck_facts)
  from m have "set (shuffleDeck rnd createDeck) = set createDeck" by (metis set_mset_mset)
  then show "\<forall>c\<in>set (shuffleDeck rnd createDeck). rank c \<in> set ranks"
    using createDeck_facts(3) by simp
qed


text \<open>
  C7. The claim: dealing fails with \<open>DeckExhausted\<close> when fewer than three cards per
  player remain, rather than dealing missing cards. The code has no such check:
  \<^verbatim>\<open>pop\<close> on the exhausted deck returns \<^verbatim>\<open>undefined\<close>, which is pushed into the
  hand, and the deal ends with the \<open>TypeError\<close> of \<^verbatim>\<open>evaluateHand\<close>; so does
  \<^verbatim>\<open>dealCards\<close> for eighteen players.
\<close>

theorem short_deck_deals_undefined:
  "popCards 3 [\<lparr>suit = ''hearts'', rank = ''2''\<rparr>] =
     ([Some \<lparr>suit = ''hearts'', rank = ''2''\<rparr>, None, None], []) \<and>
   dealLoop [\<lparr>suit = ''hearts'', rank = ''2''\<rparr>, \<lparr>suit = ''hearts'', rank = ''3''\<rparr>] [newPlayer 1 0]
     = Inl TypeError \<and>
   dealCards (\<lambda>i. i) crowd = Inl TypeError"
  by code_simp


text \<open>
  C7, as the code has it. On a deck of valid cards that holds three cards per player
  the deal succeeds: every player gets three cards, the hands in seat order are the
  cards from the top of the deck (its end) downwards, and the deck that is left is the
  rest, so no card is dealt twice. On a shorter deck the deal throws \<open>TypeError\<close>;
  popping three cards from fewer than three yields \<^verbatim>\<open>undefined\<close> entries and an
  empty deck. \<^verbatim>\<open>dealCards\<close> deals from a fresh shuffled deck of 52: for at most 17
  players (the schema allows 6) it succeeds and the hands with the remaining deck are
  the 52 cards, for more it throws \<open>TypeError\<close>. The random draws are assumed to
  satisfy \<open>j \<le> i\<close>, which \<^verbatim>\<open>Math.floor(Math.random() * (i + 1))\<close> does.
\<close>

theorem dealing_from_the_top:
  "(3 * length ps \<le> length d \<and> (\<forall>c\<in>set d. rank c \<in> set ranks) \<longrightarrow>
      (\<exists>ps' d'. dealLoop d ps = Inr (ps', d') \<and> length ps' = length ps \<and>
         (\<forall>p\<in>set ps'. length (cards p) = 3) \<and>
         concat (map cards ps') = take (3 * length ps) (rev d) \<and>
         rev d' = drop (3 * length ps) (rev d))) \<and>
   (length d < 3 * length ps \<and> (\<forall>c\<in>set d. rank c \<in> set ranks) \<longrightarrow>
      dealLoop d ps = Inl TypeError) \<and>
   (length d < 3 \<longrightarrow> None \<in> set (fst (popCards 3 d)) \<and> snd (popCards 3 d) = []) \<and>
   ((\<forall>i. rnd i \<le> i) \<and> length (players g) \<le> 17 \<longrightarrow>
      (\<exists>g'. dealCards rnd g = Inr g' \<and> length (players g') = length (players g) \<and>
         (\<forall>p\<in>set (players g'). length (cards p) = 3) \<and>
         mset (concat (map cards (players g')) @ deck g') = mset createDeck)) \<and>
   ((\<forall>i. rnd i \<le> i) \<and> 18 \<le> length (players g) \<longrightarrow> dealCards rnd g = Inl TypeError)"
proof (intro conjI impI)
  assume "3 * length ps \<le> length d \<and> (\<forall>c\<in>set d. rank c \<in> set ranks)"
  then show "\<exists>ps' d'. dealLoop d ps = Inr (ps', d') \<and> length ps' = length ps \<and>
         (\<forall>p\<in>set ps'. length (cards p) = 3) \<and>
         concat (map cards ps') = take (3 * length ps) (rev d) \<and>
         rev d' = drop (3 * length ps) (rev d)"
    using dealLoop_enough[of ps d] by blast
next
  assume "length d < 3 * length ps \<and> (\<forall>c\<in>set d. rank c \<in> set ranks)"
  then show "dealLoop d ps = Inl TypeError" using dealLoop_short[of d ps] by blast
next
  assume "length d < 3"
  then show "None \<in> set (fst (popCards 3 d))" "snd (popCards 3 d) = []"
    using popCards_short[of d 3] by simp_all
next
  assume a: "(\<forall>i. rnd i \<le> i) \<and> length (players g) \<le> 17"
  let ?sd = "shuffleDeck rnd createDeck"
  from a have r: "\<forall>i. rnd i \<le> i" by simp
  have "3 * length (players g) \<le> length ?sd" using a shuffled_deck(1)[OF r] by simp
  from dealLoop_enough[OF this shuffled_deck(2)[OF r]] obtain ps' d'
    where d: "dealLoop ?sd (players g) = Inr (ps', d')" "length ps' = length (players g)"
      "concat (map cards ps') = take (3 * length (players g)) (rev ?sd)"
      "rev d' = drop (3 * length (players g)) (rev ?sd)"
      "\<forall>p\<in>set ps'. length (cards p) = 3"
    by blast
  have "concat (map cards ps') @ rev d' = rev ?sd" using d(3,4) by simp
  then have "mset (concat (map cards ps') @ rev d') = mset (rev ?sd)" by simp
  then have "mset (concat (map cards ps') @ d') = mset createDeck"
    using shuffled_deck(3)[OF r] by simp
  then show "\<exists>g'. dealCards rnd g = Inr g' \<and> length (players g') = length (players g) \<and>
         (\<forall>p\<in>set (players g'). length (cards p) = 3) \<and>
         mset (concat (map cards (players g')) @ deck g') = mset createDeck"
    using d by (simp add: dealCards_def)
next
  assume a: "(\<forall>i. rnd i \<le> i) \<and> 18 \<le> length (players g)"
  then have r: "\<forall>i. rnd i \<le> i" by simp
  have "length (shuffleDeck rnd createDeck) < 3 * length (players g)"
    using a shuffled_deck(1)[OF r] by simp
  from dealLoop_short[OF this shuffled_deck(2)[OF r]]
  show "dealCards rnd g = Inl TypeError" by (simp add: dealCards_def)
qed


text \<open>
  Two players on the first seven cards of the deck, on the first five, and on the full
  shuffled deck; eighteen players on the full deck.
\<close>

theorem dealing_from_the_top_witness:
  "(\<exists>ps' d'. dealLoop (take 7 createDeck) [newPlayer 1 0, newPlayer 2 1] = Inr (ps', d') \<and>
       concat (map cards ps') = take 6 (rev (take 7 createDeck)) \<and>
       rev d' = drop 6 (rev (take 7 createDeck))) \<and>
   dealLoop (take 5 createDeck) [newPlayer 1 0, newPlayer 2 1] = Inl TypeError \<and>
   snd (popCards 3 (take 2 createDeck)) = [] \<and>
   (\<exists>g'. dealCards (\<lambda>i. 0) (game table2) = Inr g' \<and> length (players g') = 2 \<and>
       mset (concat (map cards (players g')) @ deck g') = mset createDeck) \<and>
   dealCards (\<lambda>i. 0) crowd = Inl TypeError"
proof -
  have v: "\<forall>c\<in>set (take n createDeck). rank c \<in> set ranks" for n
    using createDeck_facts(3) by (auto dest: in_set_takeD)
  have l: "length (take 7 createDeck) = 7" "length (take 5 createDeck) = 5"
    "length (take 2 createDeck) = 2" by (simp_all add: createDeck_facts)
  have p: "length (players (game table2)) = 2" "length (players crowd) = 18"
    by (simp_all add: table2_def crowd_def)
  have r: "\<forall>i. (\<lambda>i. 0::nat) i \<le> i" by simp
  note t1 = dealing_from_the_top[of "[newPlayer 1 0, newPlayer 2 1]" "take 7 createDeck" "\<lambda>i. 0" "game table2"]
  note t2 = dealing_from_the_top[of "[newPlayer 1 0, newPlayer 2 1]" "take 5 createDeck" "\<lambda>i. 0" crowd]
  note t3 = dealing_from_the_top[of "[newPlayer 1 0, newPlayer 2 1]" "take 2 createDeck" "\<lambda>i. 0" crowd]
  have a: "\<exists>ps' d'. dealLoop (take 7 createDeck) [newPlayer 1 0, newPlayer 2 1] = Inr (ps', d') \<and>
       concat (map cards ps') = take 6 (rev (take 7 createDeck)) \<and>
       rev d' = drop 6 (rev (take 7 createDeck))"
    using t1 v[of 7] l(1) by auto
  have b: "dealLoop (take 5 createDeck) [newPlayer 1 0, newPlayer 2 1] = Inl TypeError"
    using t2 v[of 5] l(2) by auto
  have c: "snd (popCards 3 (take 2 createDeck)) = []"
    using t3 l(3) by auto
  have d: "\<exists>g'. dealCards (\<lambda>i. 0) (game table2) = Inr g' \<and> length (players g') = 2 \<and>
       mset (concat (map cards (players g')) @ deck g') = mset createDeck"
    using t1 p(1) r by auto
  have e: "dealCards (\<lambda>i. 0) crowd = Inl TypeError"
    using t2 p(2) r by auto
  show ?thesis using a b c d e by blast
qed

section \<open>What a client sees\<close>





end
